theory Spec2Isabelle
  imports Complex_Main "HOL-Library.AList"
begin

section \<open>Python text\<close>

text \<open>
  A Python \<open>str\<close> is modelled as a \<open>string\<close> whose characters are the code points
  below 256 (Latin-1). On such text \<open>str.lower\<close>, \<open>str.strip\<close>, \<open>\s\<close>, \<open>\d\<close> and
  the \<open>re.IGNORECASE\<close> comparison against the ASCII letters of a pattern are the
  functions below.
\<close>

definition upper_chars :: string where
  "upper_chars = ''ABCDEFGHIJKLMNOPQRSTUVWXYZ'' @
     [CHR 0xC0, CHR 0xC1, CHR 0xC2, CHR 0xC3, CHR 0xC4, CHR 0xC5, CHR 0xC6, CHR 0xC7,
      CHR 0xC8, CHR 0xC9, CHR 0xCA, CHR 0xCB, CHR 0xCC, CHR 0xCD, CHR 0xCE, CHR 0xCF,
      CHR 0xD0, CHR 0xD1, CHR 0xD2, CHR 0xD3, CHR 0xD4, CHR 0xD5, CHR 0xD6,
      CHR 0xD8, CHR 0xD9, CHR 0xDA, CHR 0xDB, CHR 0xDC, CHR 0xDD, CHR 0xDE]"

definition lower_chars :: string where
  "lower_chars = ''abcdefghijklmnopqrstuvwxyz'' @
     [CHR 0xE0, CHR 0xE1, CHR 0xE2, CHR 0xE3, CHR 0xE4, CHR 0xE5, CHR 0xE6, CHR 0xE7,
      CHR 0xE8, CHR 0xE9, CHR 0xEA, CHR 0xEB, CHR 0xEC, CHR 0xED, CHR 0xEE, CHR 0xEF,
      CHR 0xF0, CHR 0xF1, CHR 0xF2, CHR 0xF3, CHR 0xF4, CHR 0xF5, CHR 0xF6,
      CHR 0xF8, CHR 0xF9, CHR 0xFA, CHR 0xFB, CHR 0xFC, CHR 0xFD, CHR 0xFE]"

definition py_lower_char :: "char \<Rightarrow> char" where
  "py_lower_char c = (case map_of (zip upper_chars lower_chars) c of Some d \<Rightarrow> d | None \<Rightarrow> c)"

text \<open>\<open>s.lower()\<close>\<close>

definition py_lower :: "string \<Rightarrow> string" where
  "py_lower s = map py_lower_char s"

text \<open>
  \<open>s.upper()\<close>: the sharp s (code point 223) becomes \<open>SS\<close>. The capitals of the
  micro sign (181) and of the y with diaeresis (255) have code points above 255: the
  source applies \<open>upper\<close> to the symbols c, f, k, and to a text it compares with words
  of ASCII letters, where these two letters decide nothing.
\<close>

definition py_upper_char :: "char \<Rightarrow> string" where
  "py_upper_char c =
     (if c = CHR 0xDF then ''SS''
      else case map_of (zip lower_chars upper_chars) c of Some d \<Rightarrow> [d] | None \<Rightarrow> [c])"

definition py_upper :: "string \<Rightarrow> string" where
  "py_upper s = concat (map py_upper_char s)"

text \<open>Whitespace as \<open>str.isspace\<close> and \<open>\s\<close> see it.\<close>

definition is_space :: "char \<Rightarrow> bool" where
  "is_space c = (c \<in> set [CHR 0x09, CHR 0x0A, CHR 0x0B, CHR 0x0C, CHR 0x0D,
                           CHR 0x1C, CHR 0x1D, CHR 0x1E, CHR 0x1F, CHR 0x20,
                           CHR 0x85, CHR 0xA0])"

definition is_digit :: "char \<Rightarrow> bool" where
  "is_digit c = (c \<in> set ''0123456789'')"

definition is_ascii_alpha :: "char \<Rightarrow> bool" where
  "is_ascii_alpha c = (c \<in> set (take 26 lower_chars @ take 26 upper_chars))"

text \<open>\<open>s.strip()\<close>\<close>

definition py_strip :: "string \<Rightarrow> string" where
  "py_strip s = rev (dropWhile is_space (rev (dropWhile is_space s)))"

text \<open>\<open>s.startswith(p)\<close>; on lists of path components it is the test of \<open>relative_to\<close>.\<close>

fun startswith :: "'a list \<Rightarrow> 'a list \<Rightarrow> bool" where
  "startswith s [] = True"
| "startswith [] (p # ps) = False"
| "startswith (c # cs) (p # ps) = (c = p \<and> startswith cs ps)"

text \<open>\<open>p in s\<close>\<close>

fun contains :: "string \<Rightarrow> string \<Rightarrow> bool" where
  "contains p [] = (p = [])"
| "contains p (c # cs) = (startswith (c # cs) p \<or> contains p cs)"

text \<open>
  \<open>s.split(sep)\<close> for a non-empty separator: the text is cut at every occurrence of
  the separator found from left to right; \<open>k\<close> counts the characters of an occurrence
  still to be skipped and \<open>cur\<close> is the piece being collected, reversed.
\<close>

fun split_from :: "string \<Rightarrow> nat \<Rightarrow> string \<Rightarrow> string \<Rightarrow> string list" where
  "split_from sep k cur [] = [rev cur]"
| "split_from sep k cur (c # cs) =
     (if 0 < k then split_from sep (k - 1) cur cs
      else if startswith (c # cs) sep then rev cur # split_from sep (length sep - 1) [] cs
      else split_from sep 0 (c # cur) cs)"

definition py_split :: "string \<Rightarrow> string \<Rightarrow> string list" where
  "py_split sep s = split_from sep 0 [] s"

text \<open>\<open>s.replace(c, r)\<close> for a single character \<open>c\<close>.\<close>

definition replace_char :: "char \<Rightarrow> string \<Rightarrow> string \<Rightarrow> string" where
  "replace_char c r s = concat (map (\<lambda>x. if x = c then r else [x]) s)"

section \<open>Regular expressions of the \<open>re\<close> module\<close>

text \<open>
  The patterns the source uses, as a datatype; \<open>Dot\<close> is \<open>.\<close> (anything but a newline),
  \<open>Space\<close> is \<open>\s\<close>. Matching is by derivatives; \<open>ic\<close> is the flag \<open>re.IGNORECASE\<close>.
\<close>

datatype rx = Zero | One | Lit char | Space | Dot | Alt rx rx | Seq rx rx | Star rx

definition Plus :: "rx \<Rightarrow> rx" where
  "Plus r = Seq r (Star r)"

text \<open>A literal word.\<close>

fun Word :: "string \<Rightarrow> rx" where
  "Word [] = One"
| "Word [c] = Lit c"
| "Word (c # d # cs) = Seq (Lit c) (Word (d # cs))"

fun nullable :: "rx \<Rightarrow> bool" where
  "nullable Zero = False"
| "nullable One = True"
| "nullable (Lit c) = False"
| "nullable Space = False"
| "nullable Dot = False"
| "nullable (Alt r s) = (nullable r \<or> nullable s)"
| "nullable (Seq r s) = (nullable r \<and> nullable s)"
| "nullable (Star r) = True"

fun deriv :: "bool \<Rightarrow> char \<Rightarrow> rx \<Rightarrow> rx" where
  "deriv ic c Zero = Zero"
| "deriv ic c One = Zero"
| "deriv ic c (Lit d) =
     (if c = d \<or> (ic \<and> py_lower_char c = py_lower_char d) then One else Zero)"
| "deriv ic c Space = (if is_space c then One else Zero)"
| "deriv ic c Dot = (if c = CHR 0x0A then Zero else One)"
| "deriv ic c (Alt r s) = Alt (deriv ic c r) (deriv ic c s)"
| "deriv ic c (Seq r s) =
     (if nullable r then Alt (Seq (deriv ic c r) s) (deriv ic c s)
      else Seq (deriv ic c r) s)"
| "deriv ic c (Star r) = Seq (deriv ic c r) (Star r)"

text \<open>No text at all matches the pattern (a sound, syntactic test).\<close>

fun dead :: "rx \<Rightarrow> bool" where
  "dead Zero = True"
| "dead (Alt r s) = (dead r \<and> dead s)"
| "dead (Seq r s) = (dead r \<or> dead s)"
| "dead r = False"

text \<open>\<open>re.match(r, s)\<close> finds a match: some prefix of \<open>s\<close> matches \<open>r\<close>.\<close>

fun re_match :: "bool \<Rightarrow> rx \<Rightarrow> string \<Rightarrow> bool" where
  "re_match ic r [] = nullable r"
| "re_match ic r (c # cs) = (nullable r \<or> (\<not> dead r \<and> re_match ic (deriv ic c r) cs))"

text \<open>\<open>re.search(r, s)\<close> finds a match: a match starts at some position of \<open>s\<close>.\<close>

fun re_search :: "bool \<Rightarrow> rx \<Rightarrow> string \<Rightarrow> bool" where
  "re_search ic r [] = nullable r"
| "re_search ic r (c # cs) = (re_match ic r (c # cs) \<or> re_search ic r cs)"

text \<open>
  The length of the longest prefix of the text that matches. For the patterns of
  \<open>_preprocess_expression\<close> (a word, then \<open>\s*\<close>, then an opening bracket) a match at
  a position is unique, so this is the extent of the match \<open>re.sub\<close> replaces.
\<close>

fun match_len :: "bool \<Rightarrow> rx \<Rightarrow> string \<Rightarrow> nat option" where
  "match_len ic r [] = (if nullable r then Some 0 else None)"
| "match_len ic r (c # cs) =
     (case (if dead r then None else match_len ic (deriv ic c r) cs) of
        Some n \<Rightarrow> Some (Suc n)
      | None \<Rightarrow> if nullable r then Some 0 else None)"

text \<open>
  \<open>re.sub(r, repl, s)\<close> for a pattern that matches no empty text: scanning from the
  left, each match is replaced and the scan goes on behind it; \<open>k\<close> counts the
  characters of the current match still to be skipped.
\<close>

fun sub_from :: "bool \<Rightarrow> rx \<Rightarrow> string \<Rightarrow> nat \<Rightarrow> string \<Rightarrow> string" where
  "sub_from ic r repl k [] = []"
| "sub_from ic r repl k (c # cs) =
     (if 0 < k then sub_from ic r repl (k - 1) cs
      else case match_len ic r (c # cs) of
             Some n \<Rightarrow> repl @ sub_from ic r repl (n - 1) cs
           | None \<Rightarrow> c # sub_from ic r repl 0 cs)"

definition re_sub :: "bool \<Rightarrow> rx \<Rightarrow> string \<Rightarrow> string \<Rightarrow> string" where
  "re_sub ic r repl s = sub_from ic r repl 0 s"

section \<open>Numbers\<close>

definition digit_val :: "char \<Rightarrow> nat" where
  "digit_val c = (case map_of (zip ''0123456789'' [0, 1, 2, 3, 4, 5, 6, 7, 8, 9]) c of
                    Some n \<Rightarrow> n | None \<Rightarrow> 0)"

definition nat_of_digits :: "string \<Rightarrow> nat" where
  "nat_of_digits s = foldl (\<lambda>a c. 10 * a + digit_val c) 0 s"

definition digit_char :: "nat \<Rightarrow> char" where
  "digit_char n = ''0123456789'' ! (n mod 10)"

function show_nat :: "nat \<Rightarrow> string" where
  "show_nat n = (if n < 10 then [digit_char n] else show_nat (n div 10) @ [digit_char n])"
  by pat_completeness auto
termination
  by (relation "measure id") auto

declare show_nat.simps [simp del]

text \<open>Rounding to the nearest integer, a tie going to the even one.\<close>

definition round_half_even :: "rat \<Rightarrow> int" where
  "round_half_even x =
     (let f = \<lfloor>x\<rfloor>; d = x - of_int f in
      if d < 1 / 2 then f else if 1 / 2 < d then f + 1 else if even f then f else f + 1)"

text \<open>\<open>round(x, n)\<close>, before the result is made a \<open>float\<close> again.\<close>

definition py_round :: "rat \<Rightarrow> nat \<Rightarrow> rat" where
  "py_round x n = of_int (round_half_even (x * 10 ^ n)) / 10 ^ n"

text \<open>The format \<open>{x:.nf}\<close> for \<open>0 < n\<close>: \<open>n\<close> fractional digits.\<close>

definition fmt_fixed :: "nat \<Rightarrow> rat \<Rightarrow> string" where
  "fmt_fixed n x =
     (let m = nat (round_half_even (\<bar>x\<bar> * 10 ^ n));
          fs = show_nat (m mod 10 ^ n)
      in (if x < 0 then ''-'' else []) @ show_nat (m div 10 ^ n) @ ''.'' @
         replicate (n - length fs) (CHR ''0'') @ fs)"

section \<open>Floating point\<close>

text \<open>
  A Python \<open>float\<close> is a binary64 number of IEEE 754: a rational \<open>m * 2^e\<close> with
  \<open>\<bar>m\<bar> < 2^53\<close> and \<open>-1074 \<le> e \<le> 971\<close>, an infinity, or not a number. The two
  zeros are not told apart. Every operation gives the exact result rounded to the
  nearest such number, a tie going to the even \<open>m\<close>; so does \<open>float(s)\<close>.
\<close>

datatype double = Finite rat | PInf | NInf | NaN

definition pow2 :: "int \<Rightarrow> rat" where
  "pow2 e = (if 0 \<le> e then 2 ^ nat e else 1 / 2 ^ nat (- e))"

text \<open>
  The exponent \<open>e\<close> with \<open>2^52 \<le> a / 2^e < 2^53\<close>, for \<open>0 < a\<close>, looked for from 0
  in at most \<open>n\<close> steps.
\<close>

fun find_exp :: "nat \<Rightarrow> rat \<Rightarrow> int \<Rightarrow> int" where
  "find_exp 0 a e = e"
| "find_exp (Suc n) a e =
     (if a / pow2 e < 2 ^ 52 then find_exp n a (e - 1)
      else if 2 ^ 53 \<le> a / pow2 e then find_exp n a (e + 1)
      else e)"

definition exponent :: "rat \<Rightarrow> int" where
  "exponent a = find_exp 2200 a 0"

text \<open>
  Rounding to the nearest binary64 number: below \<open>2^-1022\<close> the exponent stays at
  \<open>-1074\<close> (gradual underflow), and a result of \<open>2^1024\<close> or more is an infinity.
\<close>

definition fl :: "rat \<Rightarrow> double" where
  "fl x =
     (if x = 0 then Finite 0
      else
        let e = max (exponent \<bar>x\<bar>) (- 1074);
            y = of_int (round_half_even (x / pow2 e)) * pow2 e
        in if 2 ^ 1024 \<le> \<bar>y\<bar> then (if x < 0 then NInf else PInf) else Finite y)"

definition is_neg :: "double \<Rightarrow> bool" where
  "is_neg a = (case a of Finite x \<Rightarrow> x < 0 | NInf \<Rightarrow> True | _ \<Rightarrow> False)"

text \<open>\<open>a + b\<close>, \<open>a - b\<close>, \<open>a * b\<close>\<close>

definition fadd :: "double \<Rightarrow> double \<Rightarrow> double" where
  "fadd a b =
     (case (a, b) of
        (Finite x, Finite y) \<Rightarrow> fl (x + y)
      | (NaN, _) \<Rightarrow> NaN
      | (_, NaN) \<Rightarrow> NaN
      | (PInf, NInf) \<Rightarrow> NaN
      | (NInf, PInf) \<Rightarrow> NaN
      | (PInf, _) \<Rightarrow> PInf
      | (NInf, _) \<Rightarrow> NInf
      | (_, PInf) \<Rightarrow> PInf
      | (_, NInf) \<Rightarrow> NInf)"

definition fneg :: "double \<Rightarrow> double" where
  "fneg a = (case a of Finite x \<Rightarrow> Finite (- x) | PInf \<Rightarrow> NInf | NInf \<Rightarrow> PInf | NaN \<Rightarrow> NaN)"

definition fsub :: "double \<Rightarrow> double \<Rightarrow> double" where
  "fsub a b = fadd a (fneg b)"

definition fmul :: "double \<Rightarrow> double \<Rightarrow> double" where
  "fmul a b =
     (case (a, b) of
        (Finite x, Finite y) \<Rightarrow> fl (x * y)
      | (NaN, _) \<Rightarrow> NaN
      | (_, NaN) \<Rightarrow> NaN
      | _ \<Rightarrow> if a = Finite 0 \<or> b = Finite 0 then NaN
             else if is_neg a = is_neg b then PInf else NInf)"

text \<open>\<open>a / b\<close> for a divisor that is not zero, and \<open>a / b\<close>, which raises on zero.\<close>

definition fdiv_val :: "double \<Rightarrow> double \<Rightarrow> double" where
  "fdiv_val a b =
     (case (a, b) of
        (Finite x, Finite y) \<Rightarrow> fl (x / y)
      | (NaN, _) \<Rightarrow> NaN
      | (_, NaN) \<Rightarrow> NaN
      | (Finite x, _) \<Rightarrow> Finite 0
      | (_, Finite y) \<Rightarrow> if is_neg a = is_neg b then PInf else NInf
      | _ \<Rightarrow> NaN)"

text \<open>The format \<open>{x:.nf}\<close> of a \<open>float\<close>.\<close>

definition fmt_double :: "nat \<Rightarrow> double \<Rightarrow> string" where
  "fmt_double n a =
     (case a of Finite x \<Rightarrow> fmt_fixed n x | PInf \<Rightarrow> ''inf'' | NInf \<Rightarrow> ''-inf'' | NaN \<Rightarrow> ''nan'')"

section \<open>Exceptions, replies and the world\<close>

text \<open>
  The exceptions the source raises or catches by name; everything else that derives
  from \<open>Exception\<close> is \<open>OtherException\<close> with its message.
\<close>

datatype pyexc =
    ZeroDivisionError
  | ValueError string
  | TypeError string
  | PermissionError string
  | Timeout
  | HTTPError nat
  | ConnectionError
  | RequestException string
  | OtherException string

text \<open>
  What a call can raise: an exception that derives from \<open>Exception\<close>, or one that
  does not (\<open>SystemExit\<close>, \<open>KeyboardInterrupt\<close>, \<open>GeneratorExit\<close>), by its name, which
  no \<open>except Exception\<close> catches. The interpreter runs the text it is given and can
  raise either; the decoders, the network and the clock raise the first kind.
\<close>

datatype raised = Exc pyexc | BaseExc string

definition fdiv :: "double \<Rightarrow> double \<Rightarrow> pyexc + double" where
  "fdiv a b = (if b = Finite 0 then Inl ZeroDivisionError else Inr (fdiv_val a b))"

text \<open>What \<open>eval\<close> gives back: an \<open>int\<close>, a \<open>float\<close>, or any other object by its text.\<close>

datatype pyval = VInt int | VFloat double | VOther string

text \<open>A path is the list of its components below the root directory.\<close>

type_synonym path = "string list"

datatype node = File string | Dir

text \<open>The calls that leave the process: the interpreter, the statistics, the network.\<close>

datatype event =
    Eval string
  | Stats string
  | HttpRequest string string

text \<open>
  The world a tool acts on: the file system (no symbolic links, no permissions; the
  paths of the list are distinct) and the log of the calls made so far.
\<close>

record world =
  files :: "(path \<times> node) list"
  log :: "event list"

type_synonym kwargs = "string \<rightharpoonup> string"

section \<open>The calculator tool\<close>

text \<open>
  The texts the calculator returns, one constructor for each message template of the
  source (the templates are Chinese text; the comment renders them).
\<close>

datatype calc_reply =
    CalcResult pyval                   \<comment> \<open>result: R\<close>
  | DivByZero                          \<comment> \<open>error: the divisor must not be zero\<close>
  | InputError string                  \<comment> \<open>input error: E\<close>
  | CalcError pyexc                    \<comment> \<open>calculation error: E\<close>
  | ConvFormatError                    \<comment> \<open>format error, use the form 10km to m\<close>
  | ConvParseError                     \<comment> \<open>cannot parse number and unit\<close>
  | TempResult double string double string \<comment> \<open>\<open>{value}{FROM} = {result}{TO}\<close>\<close>
  | Unsupported string string          \<comment> \<open>conversion of FROM to TO is not supported\<close>
  | UnitResult double string string string \<comment> \<open>\<open>{value}{from} = {result:.4f}{to}\<close>\<close>
  | ConvError pyexc                    \<comment> \<open>unit conversion error: E\<close>
  | StatsReply string                  \<comment> \<open>whatever \<open>_statistical_analysis\<close> returns\<close>

text \<open>A word, \<open>\s*\<close>, an opening bracket.\<close>

definition call_pat :: "string \<Rightarrow> rx" where
  "call_pat name = Seq (Word name) (Seq (Star Space) (Lit (CHR ''('')))"

definition dangerous_patterns :: "rx list" where
  "dangerous_patterns =
     [Seq (Word ''import'') (Plus Space), call_pat ''exec'', call_pat ''eval'',
      Seq (Word ''__'') (Seq (Star Dot) (Word ''__'')),
      call_pat ''open'', Seq (Word ''os'') (Lit (CHR ''.'')),
      Seq (Word ''sys'') (Lit (CHR ''.'')), Seq (Word ''subprocess'') (Lit (CHR ''.''))]"

text \<open>\<open>CalculatorTool.validate_input\<close> (every argument of the model is a \<open>str\<close>).\<close>

definition calc_validate_input :: "kwargs \<Rightarrow> bool" where
  "calc_validate_input input_data =
     (case input_data ''expression'' of
        None \<Rightarrow> False
      | Some expression \<Rightarrow>
          expression \<noteq> [] \<and>
          \<not> list_ex (\<lambda>pattern. re_search True pattern expression) dangerous_patterns)"

text \<open>\<open>CalculatorTool._preprocess_expression\<close>\<close>

definition preprocess_expression :: "string \<Rightarrow> string" where
  "preprocess_expression expr0 =
     (let expr = replace_char (CHR ''^'') ''**''
                   (replace_char (CHR 0xF7) ''/'' (replace_char (CHR 0xD7) ''*'' expr0));
          expr = re_sub True (call_pat ''sin'') ''math.sin('' expr;
          expr = re_sub True (call_pat ''cos'') ''math.cos('' expr;
          expr = re_sub True (call_pat ''tan'') ''math.tan('' expr;
          expr = re_sub True (call_pat ''sqrt'') ''math.sqrt('' expr;
          expr = re_sub True (call_pat ''log'') ''math.log10('' expr;
          expr = re_sub True (call_pat ''ln'') ''math.log('' expr;
          expr = re_sub True (call_pat ''exp'') ''math.exp('' expr;
          expr = re_sub True (call_pat ''abs'') ''abs('' expr
      in expr)"

text \<open>
  The interpreter \<open>eval\<close> with the dictionary \<open>safe_dict\<close>, and the body of
  \<open>_statistical_analysis\<close>, are parameters.
\<close>

record calc_env =
  py_eval :: "string \<Rightarrow> raised + pyval"
  stats_impl :: "string \<Rightarrow> string"

text \<open>\<open>CalculatorTool._evaluate_math\<close>\<close>

definition format_result :: "pyval \<Rightarrow> pyval" where
  "format_result result =
     (case result of
        VFloat (Finite r) \<Rightarrow>
          if of_int \<lfloor>r\<rfloor> = r then VInt \<lfloor>r\<rfloor> else VFloat (fl (py_round r 6))
      | _ \<Rightarrow> result)"

definition evaluate_math :: "calc_env \<Rightarrow> string \<Rightarrow> world \<Rightarrow> (raised + pyval) \<times> world" where
  "evaluate_math env expr w =
     (case py_eval env expr of
        Inl e \<Rightarrow> (Inl e, w\<lparr>log := log w @ [Eval expr]\<rparr>)
      | Inr result \<Rightarrow> (Inr (format_result result), w\<lparr>log := log w @ [Eval expr]\<rparr>))"

text \<open>\<open>CalculatorTool._statistical_analysis\<close>\<close>

definition statistical_analysis :: "calc_env \<Rightarrow> string \<Rightarrow> world \<Rightarrow> calc_reply \<times> world" where
  "statistical_analysis env expr w =
     (StatsReply (stats_impl env expr), w\<lparr>log := log w @ [Stats expr]\<rparr>)"

text \<open>\<open>CalculatorTool._convert_temperature\<close>\<close>

definition convert_temperature :: "double \<Rightarrow> string \<Rightarrow> string \<Rightarrow> pyexc + double" where
  "convert_temperature v from_unit to_unit =
     (case (if from_unit = ''c'' then Inr v
            else if from_unit = ''f'' then Inr (fdiv_val (fmul (fsub v (Finite 32)) (Finite 5)) (Finite 9))
            else if from_unit = ''k'' then Inr (fsub v (fl 273.15))
            else Inl (ValueError from_unit)) of
        Inl e \<Rightarrow> Inl e
      | Inr celsius \<Rightarrow>
          if to_unit = ''c'' then Inr celsius
          else if to_unit = ''f'' then Inr (fadd (fdiv_val (fmul celsius (Finite 9)) (Finite 5)) (Finite 32))
          else if to_unit = ''k'' then Inr (fadd celsius (fl 273.15))
          else Inl (ValueError to_unit))"

text \<open>
  The table \<open>self.units\<close>, in the order of the dictionary, each factor as the source
  writes it; the number a factor stands for is \<open>fl\<close> of it.
\<close>

datatype factor = Num rat | Name string

definition units :: "(string \<times> (string \<times> factor) list) list" where
  "units =
     [(''length'', [(''m'', Num 1), (''km'', Num 1000), (''cm'', Num 0.01), (''mm'', Num 0.001),
                    (''inch'', Num 0.0254), (''ft'', Num 0.3048), (''mile'', Num 1609.344)]),
      (''weight'', [(''kg'', Num 1), (''g'', Num 0.001), (''mg'', Num 0.000001),
                    (''lb'', Num 0.453592), (''oz'', Num 0.0283495)]),
      (''temperature'', [(''c'', Name ''celsius''), (''f'', Name ''fahrenheit''),
                         (''k'', Name ''kelvin'')])]"

text \<open>The loop that looks for the first category holding both units.\<close>

fun find_unit_type :: "(string \<times> (string \<times> factor) list) list \<Rightarrow> string \<Rightarrow> string \<Rightarrow>
                        (string \<times> factor) list option" where
  "find_unit_type [] from_unit to_unit = None"
| "find_unit_type ((category, us) # rest) from_unit to_unit =
     (if map_of us from_unit \<noteq> None \<and> map_of us to_unit \<noteq> None then Some us
      else find_unit_type rest from_unit to_unit)"

text \<open>
  \<open>float(s)\<close> for a text of digits and dots (what the group \<open>[\d\.]+\<close> matches):
  at most one dot and at least one digit, else \<open>ValueError\<close>; the number written,
  rounded.
\<close>

definition py_float :: "string \<Rightarrow> pyexc + double" where
  "py_float s =
     (let ip = takeWhile is_digit s; rest = dropWhile is_digit s in
      if rest = [] then
        (if ip = [] then Inl (ValueError s) else Inr (fl (of_nat (nat_of_digits ip))))
      else if hd rest = CHR ''.'' \<and> list_all is_digit (tl rest) \<and> \<not> (ip = [] \<and> tl rest = [])
      then Inr (fl (of_nat (nat_of_digits ip) +
                    of_nat (nat_of_digits (tl rest)) / 10 ^ length (tl rest)))
      else Inl (ValueError s))"

text \<open>\<open>re.match(r'([\d\.]+)\s*([a-zA-Z]+)', s)\<close>: the two groups of the match, if any.\<close>

definition is_num_char :: "char \<Rightarrow> bool" where
  "is_num_char c = (is_digit c \<or> c = CHR ''.'')"

definition match_value_unit :: "string \<Rightarrow> (string \<times> string) option" where
  "match_value_unit s =
     (let num = takeWhile is_num_char s;
          unit = takeWhile is_ascii_alpha (dropWhile is_space (dropWhile is_num_char s))
      in if num = [] \<or> unit = [] then None else Some (num, unit))"

text \<open>\<open>CalculatorTool._convert_units\<close>\<close>

definition temperature_units :: "string list" where
  "temperature_units = [''c'', ''f'', ''k'']"

definition convert_units :: "string \<Rightarrow> calc_reply" where
  "convert_units expr =
     (let parts = py_split ''to'' (py_lower expr) in
      if length parts \<noteq> 2 then ConvFormatError
      else
        let from_part = py_strip (parts ! 0); to_unit = py_strip (parts ! 1) in
        case match_value_unit from_part of
          None \<Rightarrow> ConvParseError
        | Some (num, from_unit) \<Rightarrow>
            (case py_float num of
               Inl e \<Rightarrow> ConvError e
             | Inr v \<Rightarrow>
                 if from_unit \<in> set temperature_units \<and> to_unit \<in> set temperature_units
                 then (case convert_temperature v from_unit to_unit of
                         Inl e \<Rightarrow> ConvError e
                       | Inr result \<Rightarrow> TempResult v (py_upper from_unit) result (py_upper to_unit))
                 else
                   (case find_unit_type units from_unit to_unit of
                      None \<Rightarrow> Unsupported from_unit to_unit
                    | Some us \<Rightarrow>
                        (case (map_of us from_unit, map_of us to_unit) of
                           (Some (Num a), Some (Num b)) \<Rightarrow>
                             (case fdiv (fmul v (fl a)) (fl b) of
                                Inl e \<Rightarrow> ConvError e
                              | Inr result \<Rightarrow> UnitResult v from_unit (fmt_double 4 result) to_unit)
                         | _ \<Rightarrow> ConvError (TypeError ''unsupported operand'')))))"

text \<open>
  \<open>CalculatorTool.execute\<close>. Making the text of an \<open>int\<close> of more than 4300 digits
  raises \<open>ValueError\<close>, inside the \<open>try\<close>; an exception that does not derive from
  \<open>Exception\<close> leaves \<open>execute\<close>.
\<close>

definition int_too_long :: "pyval \<Rightarrow> bool" where
  "int_too_long result = (case result of VInt n \<Rightarrow> 10 ^ 4300 \<le> \<bar>n\<bar> | _ \<Rightarrow> False)"

definition is_stat_call :: "string \<Rightarrow> bool" where
  "is_stat_call expr =
     (startswith expr ''mean('' \<or> startswith expr ''median('' \<or>
      startswith expr ''std('' \<or> startswith expr ''var('')"

definition calc_execute :: "calc_env \<Rightarrow> string \<Rightarrow> world \<Rightarrow> (raised + calc_reply) \<times> world" where
  "calc_execute env expression w =
     (let expr = preprocess_expression expression in
      if contains ''to'' (py_lower expr) then (Inr (convert_units expr), w)
      else if is_stat_call expr then
        (case statistical_analysis env expr w of (r, w') \<Rightarrow> (Inr r, w'))
      else
        (case evaluate_math env expr w of
           (Inr result, w') \<Rightarrow>
             if int_too_long result
             then (Inr (InputError ''Exceeds the limit (4300 digits) for integer string conversion''), w')
             else (Inr (CalcResult result), w')
         | (Inl (Exc ZeroDivisionError), w') \<Rightarrow> (Inr DivByZero, w')
         | (Inl (Exc (ValueError m)), w') \<Rightarrow> (Inr (InputError m), w')
         | (Inl (Exc e), w') \<Rightarrow> (Inr (CalcError e), w')
         | (Inl (BaseExc name), w') \<Rightarrow> (Inl (BaseExc name), w')))"

section \<open>The file tool\<close>

datatype file_op = OpRead | OpWrite | OpList | OpInfo | OpMkdir | OpSearch | OpExists

datatype file_reply =
    NoPermission file_op string        \<comment> \<open>no permission to OP: PATH\<close>
  | OpFailed file_op pyexc             \<comment> \<open>OP failed: E\<close>
  | FileNotFound string                \<comment> \<open>the file does not exist: PATH\<close>
  | NotAFile string                    \<comment> \<open>not a file: PATH\<close>
  | FileTooLarge string                \<comment> \<open>the file is too large (over 10MB): PATH\<close>
  | JsonContent string                 \<comment> \<open>JSON content, then the document printed again\<close>
  | CsvEmpty                           \<comment> \<open>the CSV file is empty\<close>
  | CsvPreview "string list list" nat  \<comment> \<open>CSV content (first 5 rows of TOTAL), then the rows\<close>
  | ExcelContent string                \<comment> \<open>Excel content (first 5 rows), then the table\<close>
  | ExcelUnreadable                    \<comment> \<open>the Excel file cannot be read\<close>
  | FileContent string bool            \<comment> \<open>file content, then the text; the flag: the
                                           truncation note (only the first 5000 characters) follows\<close>
  | ParentMissing path                 \<comment> \<open>the parent directory does not exist: PARENT\<close>
  | WriteOk string                     \<comment> \<open>file saved: PATH\<close>
  | DirNotFound string                 \<comment> \<open>the directory does not exist: PATH\<close>
  | NotADir string                     \<comment> \<open>not a directory: PATH\<close>
  | DirEmpty string                    \<comment> \<open>the directory is empty: PATH\<close>
  | Listing string "string list" "(string \<times> string) list" "nat option"
      \<comment> \<open>directory PATH; the directories shown; the files shown, each with its size; and,
          if present, the note: TOTAL items in all, only the first 20 shown\<close>
  | FileInfo string node               \<comment> \<open>the size, times and mode of PATH\<close>
  | DirExists string                   \<comment> \<open>the directory exists already: PATH\<close>
  | MkdirOk string                     \<comment> \<open>directory created: PATH\<close>
  | NoMatches string string            \<comment> \<open>no file matching PATTERN found in PATH\<close>
  | SearchResult string string nat "string list" "nat option"
      \<comment> \<open>N files matching PATTERN found in PATH; the first 10; and, if present, the
          note: another K files not shown\<close>
  | IsFile string                      \<comment> \<open>the file exists: PATH\<close>
  | IsDir string                       \<comment> \<open>the directory exists: PATH\<close>
  | NotExists string                   \<comment> \<open>does not exist: PATH\<close>
  | FileHelp                           \<comment> \<open>the help text\<close>
  | UnsupportedFileOp string           \<comment> \<open>unsupported operation: OP, then the help text\<close>

text \<open>
  \<open>FileTool.__init__\<close>: the sandbox root \<open>self.base_path\<close> and, for the list
  \<open>self.restricted_paths\<close>, the directory \<open>Path.home()\<close>.
\<close>

record file_tool =
  base_path :: path
  home :: path

definition restricted_paths :: "file_tool \<Rightarrow> path list" where
  "restricted_paths ft =
     [[], [''Windows''], [''System''], [''etc''], [''usr''],
      home ft @ [''Desktop''], home ft @ [''Documents'']]"

text \<open>
  The JSON, CSV and Excel decoders and the walk of \<open>_search_files\<close> (\<open>os.walk\<close> with
  \<open>fnmatch\<close>, giving the list \<open>matches\<close>) are parameters.
\<close>

record file_env =
  json_pretty :: "string \<Rightarrow> pyexc + string"
  csv_rows :: "string \<Rightarrow> pyexc + string list list"
  read_excel :: "string \<Rightarrow> pyexc + string"
  walk_matches :: "(path \<times> node) list \<Rightarrow> path \<Rightarrow> string \<Rightarrow> string list"

text \<open>\<open>Path(s)\<close>: the components of the text, without the empty ones and the dots.\<close>

definition path_parts :: "string \<Rightarrow> string list" where
  "path_parts s = filter (\<lambda>c. c \<noteq> [] \<and> c \<noteq> ''.'') (py_split ''/'' s)"

definition is_absolute :: "string \<Rightarrow> bool" where
  "is_absolute s = startswith s ''/''"

text \<open>\<open>Path.resolve\<close> where there are no symbolic links: \<open>..\<close> drops a component.\<close>

definition resolve :: "string list \<Rightarrow> path" where
  "resolve comps = foldl (\<lambda>acc c. if c = ''..'' then butlast acc else acc @ [c]) [] comps"

text \<open>\<open>p.relative_to(other)\<close> does not raise \<open>ValueError\<close>.\<close>

definition relative_to :: "path \<Rightarrow> path \<Rightarrow> bool" where
  "relative_to p other = startswith p other"

text \<open>\<open>FileTool._get_safe_path\<close>\<close>

definition get_safe_path :: "file_tool \<Rightarrow> string \<Rightarrow> pyexc + path" where
  "get_safe_path ft p =
     (if p = [] \<or> p = ''.'' then Inr (base_path ft)
      else if CHR 0x00 \<in> set p then Inl (ValueError ''embedded null byte'')
      else
        let target_path = (if is_absolute p then path_parts p else base_path ft @ path_parts p);
            target_path = resolve target_path
        in if relative_to target_path (base_path ft) then Inr target_path
           else Inl (PermissionError p))"

text \<open>\<open>FileTool._is_path_safe\<close>\<close>

definition is_path_safe :: "file_tool \<Rightarrow> path \<Rightarrow> bool" where
  "is_path_safe ft p = (\<not> list_ex (\<lambda>restricted. relative_to p restricted) (restricted_paths ft))"

text \<open>\<open>FileTool.validate_input\<close>\<close>

definition file_validate_input :: "file_tool \<Rightarrow> kwargs \<Rightarrow> bool" where
  "file_validate_input ft input_data =
     (case input_data ''operation'' of
        None \<Rightarrow> False
      | Some operation \<Rightarrow>
          operation \<noteq> [] \<and>
          (case input_data ''path'' of
             None \<Rightarrow> True
           | Some p \<Rightarrow>
               p = [] \<or>
               (case get_safe_path ft p of
                  Inl e \<Rightarrow> False
                | Inr full_path \<Rightarrow> is_path_safe ft full_path)))"

text \<open>The size of a text in bytes, encoded as UTF-8.\<close>

definition utf8_size :: "string \<Rightarrow> nat" where
  "utf8_size s = sum_list (map (\<lambda>c. if digit7 c then 2 else 1) s)"

text \<open>\<open>Path.suffix\<close>\<close>

definition suffix :: "path \<Rightarrow> string" where
  "suffix p =
     (if p = [] then []
      else
        let name = last p; r = rev (takeWhile (\<lambda>c. c \<noteq> CHR ''.'') (rev name)) in
        if CHR ''.'' \<in> set name \<and> r \<noteq> [] \<and> length name \<noteq> Suc (length r) then CHR ''.'' # r
        else [])"

text \<open>Reading in text mode: \<open>\r\n\<close> and \<open>\r\<close> come back as \<open>\n\<close>.\<close>

fun universal_newlines :: "string \<Rightarrow> string" where
  "universal_newlines [] = []"
| "universal_newlines [c] = (if c = CHR 0x0D then [CHR 0x0A] else [c])"
| "universal_newlines (c # d # cs) =
     (if c = CHR 0x0D then
        (if d = CHR 0x0A then CHR 0x0A # universal_newlines cs
         else CHR 0x0A # universal_newlines (d # cs))
      else c # universal_newlines (d # cs))"

text \<open>\<open>FileTool._read_file\<close>\<close>

definition read_file :: "file_tool \<Rightarrow> file_env \<Rightarrow> string \<Rightarrow> world \<Rightarrow> file_reply" where
  "read_file ft env filepath w =
     (case get_safe_path ft filepath of
        Inl (PermissionError m) \<Rightarrow> NoPermission OpRead filepath
      | Inl e \<Rightarrow> OpFailed OpRead e
      | Inr full_path \<Rightarrow>
          (case map_of (files w) full_path of
             None \<Rightarrow> FileNotFound filepath
           | Some Dir \<Rightarrow> NotAFile filepath
           | Some (File data) \<Rightarrow>
               if 10 * 1024 * 1024 < utf8_size data then FileTooLarge filepath
               else
                 let ext = py_lower (suffix full_path) in
                 if ext = ''.json'' then
                   (case json_pretty env data of
                      Inl (PermissionError m) \<Rightarrow> NoPermission OpRead filepath
                    | Inl e \<Rightarrow> OpFailed OpRead e
                    | Inr text \<Rightarrow> JsonContent text)
                 else if ext = ''.csv'' then
                   (case csv_rows env data of
                      Inl (PermissionError m) \<Rightarrow> NoPermission OpRead filepath
                    | Inl e \<Rightarrow> OpFailed OpRead e
                    | Inr rows \<Rightarrow> if rows = [] then CsvEmpty else CsvPreview (take 5 rows) (length rows))
                 else if ext \<in> set [''.xlsx'', ''.xls''] then
                   (case read_excel env data of
                      Inl e \<Rightarrow> ExcelUnreadable
                    | Inr text \<Rightarrow> ExcelContent text)
                 else
                   let content = take 5000 (universal_newlines data) in
                   FileContent content (length content = 5000)))"

text \<open>\<open>FileTool._write_file\<close>\<close>

definition write_file :: "file_tool \<Rightarrow> string \<Rightarrow> string \<Rightarrow> world \<Rightarrow> file_reply \<times> world" where
  "write_file ft filepath content w =
     (case get_safe_path ft filepath of
        Inl (PermissionError m) \<Rightarrow> (NoPermission OpWrite filepath, w)
      | Inl e \<Rightarrow> (OpFailed OpWrite e, w)
      | Inr full_path \<Rightarrow>
          let parent = butlast full_path in
          if map_of (files w) parent = None then (ParentMissing parent, w)
          else if map_of (files w) parent \<noteq> Some Dir then
            (OpFailed OpWrite (OtherException ''Not a directory''), w)
          else if map_of (files w) full_path = Some Dir then
            (OpFailed OpWrite (OtherException ''Is a directory''), w)
          else (WriteOk filepath, w\<lparr>files := AList.update full_path (File content) (files w)\<rparr>))"

text \<open>\<open>FileTool._format_size\<close>\<close>

fun format_size_loop :: "string list \<Rightarrow> rat \<Rightarrow> string" where
  "format_size_loop [] size_bytes = fmt_fixed 1 size_bytes @ '' TB''"
| "format_size_loop (unit # rest) size_bytes =
     (if size_bytes < 1024 then fmt_fixed 1 size_bytes @ '' '' @ unit
      else format_size_loop rest (size_bytes / 1024))"

definition format_size :: "nat \<Rightarrow> string" where
  "format_size size_bytes = format_size_loop [''B'', ''KB'', ''MB'', ''GB''] (of_nat size_bytes)"

text \<open>\<open>Path.iterdir\<close>: the entries directly below a directory.\<close>

definition iterdir :: "(path \<times> node) list \<Rightarrow> path \<Rightarrow> (path \<times> node) list" where
  "iterdir fs p = filter (\<lambda>(q, n). q \<noteq> [] \<and> butlast q = p) fs"

text \<open>\<open>FileTool._list_directory\<close>\<close>

definition list_directory :: "file_tool \<Rightarrow> string \<Rightarrow> world \<Rightarrow> file_reply" where
  "list_directory ft dirpath0 w =
     (let dirpath = (if dirpath0 = [] then ''.'' else dirpath0) in
      case get_safe_path ft dirpath of
        Inl (PermissionError m) \<Rightarrow> NoPermission OpList dirpath
      | Inl e \<Rightarrow> OpFailed OpList e
      | Inr full_path \<Rightarrow>
          (case map_of (files w) full_path of
             None \<Rightarrow> DirNotFound dirpath
           | Some (File data) \<Rightarrow> NotADir dirpath
           | Some Dir \<Rightarrow>
               let items = iterdir (files w) full_path in
               if items = [] then DirEmpty dirpath
               else
                 let dirs = map (\<lambda>(q, n). last q @ ''/'') (filter (\<lambda>(q, n). n = Dir) items);
                     fils = concat (map (\<lambda>(q, n). case n of
                                Dir \<Rightarrow> []
                              | File data \<Rightarrow> [(last q, format_size (utf8_size data))]) items);
                     total_count = length dirs + length fils
                 in Listing dirpath (take 10 dirs) (take 10 fils)
                      (if 20 < total_count then Some total_count else None)))"

text \<open>\<open>FileTool._get_file_info\<close>\<close>

definition get_file_info :: "file_tool \<Rightarrow> string \<Rightarrow> world \<Rightarrow> file_reply" where
  "get_file_info ft filepath w =
     (case get_safe_path ft filepath of
        Inl (PermissionError m) \<Rightarrow> NoPermission OpInfo filepath
      | Inl e \<Rightarrow> OpFailed OpInfo e
      | Inr full_path \<Rightarrow>
          (case map_of (files w) full_path of
             None \<Rightarrow> FileNotFound filepath
           | Some n \<Rightarrow> FileInfo filepath n))"

text \<open>
  \<open>FileTool._create_directory\<close>; \<open>mkdir(parents=True)\<close> makes every missing
  directory on the way and fails where a file is in the way.
\<close>

definition ancestors :: "path \<Rightarrow> path list" where
  "ancestors p = map (\<lambda>k. take k p) [1..<Suc (length p)]"

definition create_directory :: "file_tool \<Rightarrow> string \<Rightarrow> world \<Rightarrow> file_reply \<times> world" where
  "create_directory ft dirpath w =
     (case get_safe_path ft dirpath of
        Inl (PermissionError m) \<Rightarrow> (NoPermission OpMkdir dirpath, w)
      | Inl e \<Rightarrow> (OpFailed OpMkdir e, w)
      | Inr full_path \<Rightarrow>
          if map_of (files w) full_path \<noteq> None then (DirExists dirpath, w)
          else if list_ex (\<lambda>q. case map_of (files w) q of Some (File data) \<Rightarrow> True | _ \<Rightarrow> False)
                    (ancestors full_path)
          then (OpFailed OpMkdir (OtherException ''Not a directory''), w)
          else (MkdirOk dirpath,
                w\<lparr>files := files w @
                     map (\<lambda>q. (q, Dir))
                       (filter (\<lambda>q. map_of (files w) q = None) (ancestors full_path))\<rparr>))"

text \<open>\<open>FileTool._search_files\<close>\<close>

definition search_files :: "file_tool \<Rightarrow> file_env \<Rightarrow> string \<Rightarrow> string \<Rightarrow> world \<Rightarrow> file_reply" where
  "search_files ft env dirpath0 pattern w =
     (let dirpath = (if dirpath0 = [] then ''.'' else dirpath0) in
      case get_safe_path ft dirpath of
        Inl (PermissionError m) \<Rightarrow> NoPermission OpSearch dirpath
      | Inl e \<Rightarrow> OpFailed OpSearch e
      | Inr full_path \<Rightarrow>
          (case map_of (files w) full_path of
             None \<Rightarrow> DirNotFound dirpath
           | Some (File data) \<Rightarrow> NotADir dirpath
           | Some Dir \<Rightarrow>
               let matches = walk_matches env (files w) full_path pattern in
               if matches = [] then NoMatches dirpath pattern
               else SearchResult dirpath pattern (length matches) (take 10 matches)
                      (if 10 < length matches then Some (length matches - 10) else None)))"

text \<open>\<open>FileTool._check_exists\<close>\<close>

definition check_exists :: "file_tool \<Rightarrow> string \<Rightarrow> world \<Rightarrow> file_reply" where
  "check_exists ft p w =
     (case get_safe_path ft p of
        Inl e \<Rightarrow> OpFailed OpExists e
      | Inr full_path \<Rightarrow>
          (case map_of (files w) full_path of
             None \<Rightarrow> NotExists p
           | Some (File data) \<Rightarrow> IsFile p
           | Some Dir \<Rightarrow> IsDir p))"

text \<open>
  \<open>FileTool.execute\<close>; of the names of an operation the ones written in ASCII are
  kept, \<open>pattern\<close> is \<open>kwargs.get("pattern", "*")\<close>.
\<close>

definition file_execute :: "file_tool \<Rightarrow> file_env \<Rightarrow> string \<Rightarrow> string \<Rightarrow> string \<Rightarrow> string \<Rightarrow>
                            world \<Rightarrow> (raised + file_reply) \<times> world" where
  "file_execute ft env operation0 p content pattern w =
     (let operation = py_strip (py_lower operation0) in
      if operation = ''read'' then (Inr (read_file ft env p w), w)
      else if operation = ''write'' then
        (case write_file ft p content w of (r, w') \<Rightarrow> (Inr r, w'))
      else if operation \<in> set [''list'', ''ls''] then (Inr (list_directory ft p w), w)
      else if operation = ''info'' then (Inr (get_file_info ft p w), w)
      else if operation \<in> set [''create_dir'', ''mkdir''] then
        (case create_directory ft p w of (r, w') \<Rightarrow> (Inr r, w'))
      else if operation = ''search'' then (Inr (search_files ft env p pattern w), w)
      else if operation = ''exists'' then (Inr (check_exists ft p w), w)
      else if operation = ''help'' then (Inr FileHelp, w)
      else (Inr (UnsupportedFileOp operation), w))"

section \<open>The web tool\<close>

datatype web_reply =
    FetchOk string string nat nat string bool
      \<comment> \<open>page URL, title, status, length of the response, the text, and the flag: the
          truncation note (only the first 2000 characters) follows\<close>
  | FetchTimeout string                \<comment> \<open>the request timed out: URL\<close>
  | FetchHttpError nat string          \<comment> \<open>HTTP error: STATUS - URL\<close>
  | FetchConnError string              \<comment> \<open>connection error: URL\<close>
  | FetchRequestError string           \<comment> \<open>request error: E\<close>
  | FetchParseError pyexc              \<comment> \<open>parse error: E\<close>
  | WebText string                     \<comment> \<open>what the operations links, images, api, parse_json return\<close>
  | UnsupportedMethod string           \<comment> \<open>unsupported HTTP method: M, in capitals\<close>
  | WebHelp                            \<comment> \<open>the help text\<close>
  | UnsupportedWebOp string            \<comment> \<open>unsupported operation: OP, then the help text\<close>

record response =
  status_code :: nat
  body :: string

text \<open>
  The network (\<open>requests\<close>), the parser of the markup (\<open>BeautifulSoup\<close>) and the
  bodies of the operations other than \<open>fetch\<close>, once their request is made, are
  parameters.
\<close>

record web_env =
  http_get :: "string \<Rightarrow> pyexc + response"
  page_text :: "string \<Rightarrow> pyexc + string"
  page_title :: "string \<Rightarrow> string"
  links_impl :: "string \<Rightarrow> string"
  images_impl :: "string \<Rightarrow> string"
  api_impl :: "string \<Rightarrow> string \<Rightarrow> string"
  parse_json_impl :: "string \<Rightarrow> string"

definition dangerous_domains :: "string list" where
  "dangerous_domains = [''localhost'', ''127.0.0.1'', ''192.168.'', ''10.'']"

text \<open>\<open>WebTool.validate_input\<close>\<close>

definition web_validate_input :: "kwargs \<Rightarrow> bool" where
  "web_validate_input input_data =
     (case input_data ''operation'' of
        None \<Rightarrow> False
      | Some operation \<Rightarrow>
          operation \<noteq> [] \<and>
          (case input_data ''url'' of
             None \<Rightarrow> True
           | Some url \<Rightarrow>
               url = [] \<or>
               ((startswith url ''http://'' \<or> startswith url ''https://'') \<and>
                \<not> list_ex (\<lambda>domain. contains domain url) dangerous_domains)))"

text \<open>\<open>WebTool._fetch_webpage\<close>\<close>

definition fetch_webpage :: "web_env \<Rightarrow> string \<Rightarrow> world \<Rightarrow> web_reply \<times> world" where
  "fetch_webpage env url w =
     (let w' = w\<lparr>log := log w @ [HttpRequest ''GET'' url]\<rparr> in
      case http_get env url of
        Inl Timeout \<Rightarrow> (FetchTimeout url, w')
      | Inl (HTTPError code) \<Rightarrow> (FetchHttpError code url, w')
      | Inl ConnectionError \<Rightarrow> (FetchConnError url, w')
      | Inl (RequestException m) \<Rightarrow> (FetchRequestError m, w')
      | Inl e \<Rightarrow> (FetchParseError e, w')
      | Inr resp \<Rightarrow>
          if 400 \<le> status_code resp \<and> status_code resp < 600
          then (FetchHttpError (status_code resp) url, w')
          else
            (case page_text env (body resp) of
               Inl e \<Rightarrow> (FetchParseError e, w')
             | Inr text \<Rightarrow>
                 (FetchOk url (page_title env (body resp)) (status_code resp) (length (body resp))
                    (take 2000 text) (2000 < length text), w')))"

text \<open>\<open>WebTool.execute\<close>; \<open>method\<close> is \<open>kwargs.get("method", "GET")\<close>.\<close>

definition web_execute :: "web_env \<Rightarrow> string \<Rightarrow> string \<Rightarrow> string \<Rightarrow> string \<Rightarrow>
                           world \<Rightarrow> (raised + web_reply) \<times> world" where
  "web_execute env operation0 url method0 json_str w =
     (let operation = py_strip (py_lower operation0) in
      if operation = ''fetch'' then
        (case fetch_webpage env url w of (r, w') \<Rightarrow> (Inr r, w'))
      else if operation = ''links'' then
        (Inr (WebText (links_impl env url)), w\<lparr>log := log w @ [HttpRequest ''GET'' url]\<rparr>)
      else if operation = ''images'' then
        (Inr (WebText (images_impl env url)), w\<lparr>log := log w @ [HttpRequest ''GET'' url]\<rparr>)
      else if operation = ''api'' then
        (let method = py_upper method0 in
         if method \<in> set [''GET'', ''POST'', ''PUT'', ''DELETE'']
         then (Inr (WebText (api_impl env url method)), w\<lparr>log := log w @ [HttpRequest method url]\<rparr>)
         else (Inr (UnsupportedMethod method0), w))
      else if operation = ''parse_json'' then (Inr (WebText (parse_json_impl env json_str)), w)
      else if operation = ''help'' then (Inr WebHelp, w)
      else (Inr (UnsupportedWebOp operation), w))"

section \<open>The time tool\<close>

datatype time_reply =
    TimeText string                    \<comment> \<open>the answer to the query\<close>
  | TimeError pyexc                    \<comment> \<open>time query error: E\<close>

text \<open>
  \<open>TimeTool.execute\<close>: the branches on the words of the query read the clock; they
  are the parameter \<open>time_impl\<close>, inside the \<open>try\<close>.
\<close>

record time_env =
  time_impl :: "string \<Rightarrow> pyexc + string"

definition time_execute :: "time_env \<Rightarrow> string \<Rightarrow> world \<Rightarrow> (raised + time_reply) \<times> world" where
  "time_execute env query0 w =
     (let query = py_strip (py_lower query0) in
      case time_impl env query of
        Inl e \<Rightarrow> (Inr (TimeError e), w)
      | Inr text \<Rightarrow> (Inr (TimeText text), w))"

section \<open>Calling a tool, and the registry\<close>

datatype reply =
    ValidationFailed string            \<comment> \<open>tool NAME: input validation failed\<close>
  | ExecFailed string pyexc            \<comment> \<open>tool NAME failed: E\<close>
  | Calc calc_reply
  | Files file_reply
  | Web web_reply
  | Time time_reply

text \<open>On a result: apply \<open>f\<close> to the value returned, leave an exception as it is.\<close>

definition returning :: "('a \<Rightarrow> 'b) \<Rightarrow> (raised + 'a) \<times> world \<Rightarrow> (raised + 'b) \<times> world" where
  "returning f r = (case r of (Inl e, w) \<Rightarrow> (Inl e, w) | (Inr x, w) \<Rightarrow> (Inr (f x), w))"

text \<open>
  \<open>BaseTool.__call__\<close>: the keyword arguments are validated, then \<open>execute\<close> runs, and
  an exception that derives from \<open>Exception\<close> becomes a reply.
\<close>

definition base_call :: "string \<Rightarrow> bool \<Rightarrow> (world \<Rightarrow> (raised + reply) \<times> world) \<Rightarrow>
                         world \<Rightarrow> (raised + reply) \<times> world" where
  "base_call name valid run w =
     (if valid then
        (case run w of
           (Inr result, w') \<Rightarrow> (Inr result, w')
         | (Inl (Exc e), w') \<Rightarrow> (Inr (ExecFailed name e), w')
         | (Inl (BaseExc b), w') \<Rightarrow> (Inl (BaseExc b), w'))
      else (Inr (ValidationFailed name), w))"

text \<open>
  \<open>calculator_tool(**kwargs)\<close>: \<open>execute\<close> has the one parameter \<open>expression\<close>, any
  other keyword is a \<open>TypeError\<close>.
\<close>

definition calculator_call :: "calc_env \<Rightarrow> kwargs \<Rightarrow> world \<Rightarrow> (raised + reply) \<times> world" where
  "calculator_call env kw w =
     base_call ''calculator'' (calc_validate_input kw)
       (\<lambda>w. case kw ''expression'' of
               Some expression \<Rightarrow>
                 if dom kw = {''expression''} then returning Calc (calc_execute env expression w)
                 else (Inl (Exc (TypeError ''unexpected keyword argument'')), w)
             | None \<Rightarrow> (Inl (Exc (TypeError ''missing argument'')), w)) w"

text \<open>\<open>file_tool(**kwargs)\<close>: \<open>path\<close>, \<open>content\<close> and \<open>pattern\<close> have defaults.\<close>

definition kwarg :: "kwargs \<Rightarrow> string \<Rightarrow> string \<Rightarrow> string" where
  "kwarg kw k d = (case kw k of None \<Rightarrow> d | Some v \<Rightarrow> v)"

definition file_call :: "file_tool \<Rightarrow> file_env \<Rightarrow> kwargs \<Rightarrow> world \<Rightarrow> (raised + reply) \<times> world" where
  "file_call ft env kw w =
     base_call ''file_tool'' (file_validate_input ft kw)
       (\<lambda>w. case kw ''operation'' of
               Some operation \<Rightarrow>
                 returning Files
                   (file_execute ft env operation (kwarg kw ''path'' []) (kwarg kw ''content'' [])
                      (kwarg kw ''pattern'' ''*'') w)
             | None \<Rightarrow> (Inl (Exc (TypeError ''missing argument'')), w)) w"

text \<open>\<open>web_tool(**kwargs)\<close>\<close>

definition web_call :: "web_env \<Rightarrow> kwargs \<Rightarrow> world \<Rightarrow> (raised + reply) \<times> world" where
  "web_call env kw w =
     base_call ''web_tool'' (web_validate_input kw)
       (\<lambda>w. case kw ''operation'' of
               Some operation \<Rightarrow>
                 returning Web
                   (web_execute env operation (kwarg kw ''url'' []) (kwarg kw ''method'' ''GET'')
                      (kwarg kw ''json_str'' []) w)
             | None \<Rightarrow> (Inl (Exc (TypeError ''missing argument'')), w)) w"

text \<open>
  \<open>ToolFactory._register_tools\<close>: the four entries of \<open>self._tools\<close>, each with the
  function \<open>func\<close> it is given, and \<open>ToolFactory.get_tool\<close>.
\<close>

record tools =
  calc_of :: calc_env
  time_of :: time_env
  file_tool_of :: file_tool
  file_of :: file_env
  web_of :: web_env

definition register_tools :: "tools \<Rightarrow> (string \<times> (string \<Rightarrow> world \<Rightarrow> (raised + reply) \<times> world)) list" where
  "register_tools T =
     [(''calculator'', \<lambda>x w. returning Calc (calc_execute (calc_of T) x w)),
      (''time_tool'', \<lambda>x w. returning Time (time_execute (time_of T) x w)),
      (''file_tool'', \<lambda>x w.
         returning Files
           (if x \<noteq> [] then file_execute (file_tool_of T) (file_of T) ''list'' x [] ''*'' w
            else file_execute (file_tool_of T) (file_of T) ''list'' [] [] ''*'' w)),
      (''web_tool'', \<lambda>x w. returning Web (web_execute (web_of T) ''fetch'' x ''GET'' [] w))]"

definition get_tool :: "tools \<Rightarrow> string \<Rightarrow> (string \<Rightarrow> world \<Rightarrow> (raised + reply) \<times> world) option" where
  "get_tool T tool_name = map_of (register_tools T) tool_name"

section \<open>Sample parameters\<close>

text \<open>What \<open>eval\<close> gives on the expressions evaluated below.\<close>

definition sample_eval :: "string \<Rightarrow> raised + pyval" where
  "sample_eval expr =
     (if expr = ''10/0'' then Inl (Exc ZeroDivisionError)
      else if expr = ''2+3*4'' then Inr (VInt 14)
      else if expr = ''os.x'' then Inl (Exc (OtherException ''name os is not defined''))
      else if expr = ''amath.tan(1)'' then Inl (Exc (OtherException ''name amath is not defined''))
      else if expr = ''Decimal(0)/Decimal(0)''
        then Inl (Exc (OtherException ''decimal.InvalidOperation: DivisionUndefined''))
      else if expr = ''abs.__self__.exit()'' then Inl (BaseExc ''SystemExit'')
      else Inl (Exc (OtherException ''not tabulated'')))"

definition sample_calc_env :: calc_env where
  "sample_calc_env = \<lparr>py_eval = sample_eval, stats_impl = (\<lambda>expr. [])\<rparr>"

definition sample_file_env :: file_env where
  "sample_file_env =
     \<lparr>json_pretty = (\<lambda>data. Inl (ValueError ''not tabulated'')),
      csv_rows = (\<lambda>data. Inr []),
      read_excel = (\<lambda>data. Inl (OtherException ''not tabulated'')),
      walk_matches = (\<lambda>fs p pattern. [])\<rparr>"



text \<open>A sandbox \<open>/home/u/work\<close> of the user whose home is \<open>/home/u\<close>.\<close>

definition sample_file_tool :: file_tool where
  "sample_file_tool = \<lparr>base_path = [''home'', ''u'', ''work''], home = [''home'', ''u'']\<rparr>"


definition empty_world :: world where
  "empty_world = \<lparr>files = [], log = []\<rparr>"

text \<open>The sandbox with nothing in it.\<close>

definition work_world :: world where
  "work_world = \<lparr>files = [([''home'', ''u'', ''work''], Dir)], log = []\<rparr>"

text \<open>The sandbox with eleven directories \<open>d01\<close> to \<open>d11\<close> in it.\<close>

definition eleven_dirs_world :: world where
  "eleven_dirs_world =
     \<lparr>files = ([''home'', ''u'', ''work''], Dir) #
               map (\<lambda>name. ([''home'', ''u'', ''work'', name], Dir))
                 [''d01'', ''d02'', ''d03'', ''d04'', ''d05'', ''d06'', ''d07'', ''d08'', ''d09'',
                  ''d10'', ''d11''],
      log = []\<rparr>"

text \<open>
  A file tool made in the home directory \<open>/home/u\<close> of its user, and a world where
  the directory \<open>Desktop\<close> there holds a file.
\<close>

definition home_file_tool :: file_tool where
  "home_file_tool = \<lparr>base_path = [''home'', ''u''], home = [''home'', ''u'']\<rparr>"

definition desktop_world :: world where
  "desktop_world =
     \<lparr>files = [([''home'', ''u''], Dir), ([''home'', ''u'', ''Desktop''], Dir),
               ([''home'', ''u'', ''Desktop'', ''secret.txt''], File ''key'')],
      log = []\<rparr>"

section \<open>The temperature formulas of the specification\<close>

text \<open>
  The specification gives the conversions between Celsius and Fahrenheit as
  \<open>(c \<times> 9/5) + 32\<close> and \<open>(f - 32) \<times> 5/9\<close>, between Celsius and Kelvin as the offsets
  \<open>+273.15\<close> and \<open>-273.15\<close>, and lets every conversion go through Celsius. Here they
  are on the rationals, as formulas of arithmetic, and on the numbers of the program,
  each operation rounded, read from left to right.
\<close>

definition celsius_to_fahrenheit :: "rat \<Rightarrow> rat" where
  "celsius_to_fahrenheit c = (c * 9 / 5) + 32"

definition fahrenheit_to_celsius :: "rat \<Rightarrow> rat" where
  "fahrenheit_to_celsius f = (f - 32) * 5 / 9"

definition celsius_to_kelvin :: "rat \<Rightarrow> rat" where
  "celsius_to_kelvin c = c + 273.15"

definition kelvin_to_celsius :: "rat \<Rightarrow> rat" where
  "kelvin_to_celsius k = k - 273.15"

definition exact_temperature :: "string \<Rightarrow> string \<Rightarrow> rat \<Rightarrow> rat" where
  "exact_temperature from_unit to_unit v =
     (let c = (if from_unit = ''f'' then fahrenheit_to_celsius v
               else if from_unit = ''k'' then kelvin_to_celsius v else v)
      in if to_unit = ''f'' then celsius_to_fahrenheit c
         else if to_unit = ''k'' then celsius_to_kelvin c else c)"

definition fl_celsius_to_fahrenheit :: "double \<Rightarrow> double" where
  "fl_celsius_to_fahrenheit c = fadd (fdiv_val (fmul c (Finite 9)) (Finite 5)) (Finite 32)"

definition fl_fahrenheit_to_celsius :: "double \<Rightarrow> double" where
  "fl_fahrenheit_to_celsius f = fdiv_val (fmul (fsub f (Finite 32)) (Finite 5)) (Finite 9)"

definition fl_celsius_to_kelvin :: "double \<Rightarrow> double" where
  "fl_celsius_to_kelvin c = fadd c (fl 273.15)"

definition fl_kelvin_to_celsius :: "double \<Rightarrow> double" where
  "fl_kelvin_to_celsius k = fsub k (fl 273.15)"

definition spec_to_celsius :: "string \<Rightarrow> double \<Rightarrow> double" where
  "spec_to_celsius u v =
     (if u = ''f'' then fl_fahrenheit_to_celsius v
      else if u = ''k'' then fl_kelvin_to_celsius v else v)"

definition spec_from_celsius :: "string \<Rightarrow> double \<Rightarrow> double" where
  "spec_from_celsius u c =
     (if u = ''f'' then fl_celsius_to_fahrenheit c
      else if u = ''k'' then fl_celsius_to_kelvin c else c)"

definition spec_temperature :: "string \<Rightarrow> string \<Rightarrow> double \<Rightarrow> double" where
  "spec_temperature from_unit to_unit v = spec_from_celsius to_unit (spec_to_celsius from_unit v)"

section \<open>Evaluation lemmas\<close>

lemmas text_defs = py_lower_def py_lower_char_def upper_chars_def lower_chars_def py_upper_def
  py_upper_char_def is_space_def is_digit_def is_ascii_alpha_def py_strip_def py_split_def
  replace_char_def is_num_char_def

lemma show_nat_small: "n < 10 \<Longrightarrow> show_nat n = [digit_char n]"
  by (simp add: show_nat.simps)

lemma show_nat_big: "10 \<le> n \<Longrightarrow> show_nat n = show_nat (n div 10) @ [digit_char n]"
  by (subst show_nat.simps) simp

lemma replicate_numeral: "replicate (numeral k) x = x # replicate (pred_numeral k) x"
  by (simp add: numeral_eq_Suc)

lemma floor_rat_numeral: "\<lfloor>(numeral a :: rat) / numeral b\<rfloor> = numeral a div numeral b"
  using floor_divide_of_int_eq [of "numeral a" "numeral b", where ?'a = rat] by simp

lemma floor_rat_one_numeral: "\<lfloor>(1 :: rat) / numeral b\<rfloor> = 1 div numeral b"
  using floor_divide_of_int_eq [of 1 "numeral b", where ?'a = rat] by simp

lemmas num_defs = digit_val_def nat_of_digits_def digit_char_def py_round_def fmt_fixed_def
  round_half_even_def floor_rat_numeral floor_rat_one_numeral show_nat_small show_nat_big
  replicate_numeral Let_def

lemma startswith_refl: "startswith xs xs"
  by (induction xs) simp_all

section \<open>Binary floating point\<close>

text \<open>
  The value of \<open>fl x\<close> is found from an exponent \<open>e\<close> that brings \<open>x\<close> between
  \<open>2 ^ 52\<close> and \<open>2 ^ 53\<close> and the integer nearest to the scaled \<open>x\<close>; the lemmas
  below give both for the numbers that the conversions of this development meet.
\<close>

lemma pow2_pos: "0 < pow2 e"
  by (simp add: pow2_def)

lemma pow2_nonneg: "pow2 (int k) = 2 ^ k"
  by (simp add: pow2_def)

lemma pow2_neg: "pow2 (- int k) = 1 / 2 ^ k"
  by (cases k) (simp_all add: pow2_def nat_add_distrib)

lemma pow2_Suc: "pow2 (e + 1) = 2 * pow2 e"
proof (cases "0 \<le> e")
  case True
  then obtain k where "e = int k" using nonneg_int_cases by blast
  then have "e + 1 = int (Suc k)" by simp
  with \<open>e = int k\<close> show ?thesis by (simp only: pow2_nonneg) simp
next
  case False
  then obtain k where k: "e = - int (Suc k)"
    by (metis neg_int_cases not_le of_nat_Suc gr0_implies_Suc of_nat_0_less_iff
        int_cases3 minus_zero less_irrefl zero_less_Suc neg_0_less_iff_less)
  then have "e + 1 = - int k" by simp
  with k show ?thesis by (simp only: pow2_neg) simp
qed

lemma pow2_add_nat: "pow2 (e + int n) = 2 ^ n * pow2 e"
proof (induction n)
  case 0
  show ?case by simp
next
  case (Suc n)
  have "pow2 (e + int (Suc n)) = pow2 ((e + int n) + 1)" by (simp add: ac_simps)
  also have "\<dots> = 2 * pow2 (e + int n)" by (rule pow2_Suc)
  finally show ?case using Suc by simp
qed

lemma pow2_mono: "e \<le> e' \<Longrightarrow> pow2 e \<le> pow2 e'"
proof -
  assume "e \<le> e'"
  then have "e' = e + int (nat (e' - e))" by simp
  then have "pow2 e' = 2 ^ nat (e' - e) * pow2 e" using pow2_add_nat by metis
  moreover have "(1::rat) \<le> 2 ^ nat (e' - e)" by simp
  ultimately show ?thesis using pow2_pos [of e]
    by (metis mult_le_cancel_right1 not_less less_le)
qed

lemma pow2_double: "e < e' \<Longrightarrow> 2 * pow2 e \<le> pow2 e'"
  using pow2_mono [of "e + 1" e'] by (simp add: pow2_Suc)

lemma find_exp_found:
  assumes lo: "2 ^ 52 * pow2 e0 \<le> a" and hi: "a < 2 ^ 53 * pow2 e0"
  shows "nat \<bar>e0 - e\<bar> \<le> n \<Longrightarrow> find_exp n a e = e0"
proof (induction n arbitrary: e)
  case 0
  then show ?case by simp
next
  case (Suc n)
  consider "e < e0" | "e = e0" | "e0 < e" by linarith
  then show ?case
  proof cases
    case 1
    from pow2_double [OF 1] have "2 ^ 53 * pow2 e \<le> 2 ^ 52 * pow2 e0" by simp
    with lo have ge: "2 ^ 53 * pow2 e \<le> a" by simp
    then have a: "2 ^ 53 \<le> a / pow2 e" by (simp add: pos_le_divide_eq pow2_pos)
    then have b: "\<not> a / pow2 e < 2 ^ 52" by simp
    from 1 Suc.prems have "nat \<bar>e0 - (e + 1)\<bar> \<le> n" by simp
    from Suc.IH [OF this] a b show ?thesis by simp
  next
    case 2
    from lo 2 have a: "\<not> a / pow2 e < 2 ^ 52" by (simp add: pos_divide_less_eq pow2_pos not_less)
    from hi 2 have b: "\<not> 2 ^ 53 \<le> a / pow2 e" by (simp add: pos_le_divide_eq pow2_pos not_le)
    from a b 2 show ?thesis by simp
  next
    case 3
    from pow2_double [OF 3] have "2 ^ 53 * pow2 e0 \<le> 2 ^ 52 * pow2 e" by simp
    with hi have "a < 2 ^ 52 * pow2 e" by simp
    then have a: "a / pow2 e < 2 ^ 52" by (simp add: pos_divide_less_eq pow2_pos)
    from 3 Suc.prems have "nat \<bar>e0 - (e - 1)\<bar> \<le> n" by simp
    from Suc.IH [OF this] a show ?thesis by simp
  qed
qed

lemma rhe_unique:
  assumes "\<bar>x - of_int m\<bar> < 1 / 2"
  shows "round_half_even x = m"
proof -
  define f where "f = \<lfloor>x\<rfloor>"
  have f1: "of_int f \<le> x" and f2: "x < of_int f + 1" unfolding f_def by linarith+
  from assms have m1: "x - 1 / 2 < of_int m" and m2: "of_int m < x + 1 / 2" by linarith+
  from f1 f2 m1 m2 have "(of_int (m - f) :: rat) < of_int 2" and "(of_int (- 1) :: rat) < of_int (m - f)"
    by simp_all
  then have "m - f < 2" and "- 1 < m - f" by (simp_all only: of_int_less_iff)
  then consider "m = f" | "m = f + 1" by linarith
  then show ?thesis
  proof cases
    case 1
    with m1 have "x - of_int f < 1 / 2" by simp
    with 1 show ?thesis by (simp add: round_half_even_def Let_def f_def)
  next
    case 2
    with m2 have "1 / 2 < x - of_int f" by simp
    with 2 show ?thesis by (simp add: round_half_even_def Let_def f_def)
  qed
qed

lemma fl_eqI:
  assumes lo: "2 ^ 52 * pow2 e \<le> \<bar>x\<bar>" and hi: "\<bar>x\<bar> < 2 ^ 53 * pow2 e"
    and e1: "- 1074 \<le> e" and e2: "e \<le> 970"
    and r: "\<bar>x / pow2 e - of_int m\<bar> < 1 / 2"
  shows "fl x = Finite (of_int m * pow2 e)"
proof -
  from lo pow2_pos [of e] have x0: "x \<noteq> 0" by auto
  from e1 e2 have "nat \<bar>e - 0\<bar> \<le> 2200" by simp
  from find_exp_found [OF lo hi this] have ex: "exponent \<bar>x\<bar> = e" by (simp add: exponent_def)
  from rhe_unique [OF r] have m: "round_half_even (x / pow2 e) = m" .
  from hi have "\<bar>x\<bar> / pow2 e < 2 ^ 53" by (simp add: pos_divide_less_eq pow2_pos)
  then have "\<bar>x / pow2 e\<bar> < 2 ^ 53" using pow2_pos [of e] by (simp add: abs_divide)
  with r have mb: "\<bar>of_int m :: rat\<bar> < 2 ^ 53 + 1 / 2" by linarith
  from pow2_mono [OF e2] have "pow2 e \<le> 2 ^ 970" by (simp add: pow2_def)
  with mb pow2_pos [of e] have "\<bar>of_int m :: rat\<bar> * pow2 e < (2 ^ 53 + 1 / 2) * 2 ^ 970"
    by (intro mult_less_le_imp_less) simp_all
  also have "\<dots> < (2::rat) ^ 1024" by simp
  finally have "\<bar>of_int m * pow2 e :: rat\<bar> < 2 ^ 1024"
    using pow2_pos [of e] by (simp add: abs_mult)
  with x0 ex m e1 show ?thesis by (simp add: fl_def Let_def max_def)
qed

lemma fl_zero: "fl 0 = Finite 0"
  by (simp add: fl_def)

lemma fl_one: "fl 1 = Finite 1"
  using fl_eqI [of "- 52" "1" 4503599627370496] by (simp add: pow2_def)

lemma fl_thousand: "fl 1000 = Finite 1000"
  using fl_eqI [of "- 43" "1000" 8796093022208000] by (simp add: pow2_def)

lemma fl_cm: "fl (1 / 100) = Finite (5764607523034235 / 576460752303423488)"
  using fl_eqI [of "- 59" "1 / 100" 5764607523034235] by (simp add: pow2_def)

lemma fl_mm: "fl (1 / 1000) = Finite (1152921504606847 / 1152921504606846976)"
  using fl_eqI [of "- 62" "1 / 1000" 4611686018427388] by (simp add: pow2_def)

lemma fl_inch: "fl (127 / 5000) = Finite (3660525777126739 / 144115188075855872)"
  using fl_eqI [of "- 58" "127 / 5000" 7321051554253478] by (simp add: pow2_def)

lemma fl_ft: "fl (381 / 1250) = Finite (5490788665690109 / 18014398509481984)"
  using fl_eqI [of "- 54" "381 / 1250" 5490788665690109] by (simp add: pow2_def)

lemma fl_mile: "fl (201168 / 125) = Finite (1769492441091539 / 1099511627776)"
  using fl_eqI [of "- 42" "201168 / 125" 7077969764366156] by (simp add: pow2_def)

lemma fl_mg: "fl (1 / 1000000) = Finite (4722366482869645 / 4722366482869645213696)"
  using fl_eqI [of "- 72" "1 / 1000000" 4722366482869645] by (simp add: pow2_def)

lemma fl_lb: "fl (56699 / 125000) = Finite (1021398381089119 / 2251799813685248)"
  using fl_eqI [of "- 54" "56699 / 125000" 8171187048712952] by (simp add: pow2_def)

lemma fl_oz: "fl (56699 / 2000000) = Finite (1021398381089119 / 36028797018963968)"
  using fl_eqI [of "- 58" "56699 / 2000000" 8171187048712952] by (simp add: pow2_def)

lemma fl_10: "fl 10 = Finite 10"
  using fl_eqI [of "- 49" "10" 5629499534213120] by (simp add: pow2_def)

lemma fl_10000: "fl 10000 = Finite 10000"
  using fl_eqI [of "- 39" "10000" 5497558138880000] by (simp add: pow2_def)

lemma fl_mm_exact: "fl (1152921504606847 / 1152921504606846976) = Finite (1152921504606847 / 1152921504606846976)"
  using fl_eqI [of "- 62" "1152921504606847 / 1152921504606846976" 4611686018427388] by (simp add: pow2_def)

lemma fl_mm_per_thousand: "fl (1152921504606847 / 1152921504606846976000) = Finite (4722366482869645 / 4722366482869645213696)"
  using fl_eqI [of "- 72" "1152921504606847 / 1152921504606846976000" 4722366482869645] by (simp add: pow2_def)

lemma fl_32: "fl 32 = Finite 32"
  using fl_eqI [of "- 47" "32" 4503599627370496] by (simp add: pow2_def)

lemma fl_300: "fl 300 = Finite 300"
  using fl_eqI [of "- 44" "300" 5277655813324800] by (simp add: pow2_def)

lemma fl_27315: "fl (5463 / 20) = Finite (2402652809016115 / 8796093022208)"
  using fl_eqI [of "- 44" "5463 / 20" 4805305618032230] by (simp add: pow2_def)

lemma fl_celsius: "fl (236175097646285 / 8796093022208) = Finite (236175097646285 / 8796093022208)"
  using fl_eqI [of "- 48" "236175097646285 / 8796093022208" 7557603124681120] by (simp add: pow2_def)

lemma fl_times9: "fl (2125575878816565 / 8796093022208) = Finite (2125575878816565 / 8796093022208)"
  using fl_eqI [of "- 45" "2125575878816565 / 8796093022208" 8502303515266260] by (simp add: pow2_def)

lemma fl_over5: "fl (425115175763313 / 8796093022208) = Finite (425115175763313 / 8796093022208)"
  using fl_eqI [of "- 47" "425115175763313 / 8796093022208" 6801842812213008] by (simp add: pow2_def)

lemma fl_plus32: "fl (706590152473969 / 8796093022208) = Finite (706590152473969 / 8796093022208)"
  using fl_eqI [of "- 46" "706590152473969 / 8796093022208" 5652721219791752] by (simp add: pow2_def)

lemma fl_8033: "fl (8033 / 100) = Finite (5652721219791749 / 70368744177664)"
  using fl_eqI [of "- 46" "8033 / 100" 5652721219791749] by (simp add: pow2_def)

lemma fl_tenth: "fl (1 / 10) = Finite (3602879701896397 / 36028797018963968)"
  using fl_eqI [of "- 56" "1 / 10" "7205759403792794"] by (simp add: pow2_def)

lemma fl_tenth_celsius: "fl (- (9837663026028110643 / 36028797018963968)) = Finite (- (1200886599856947 / 4398046511104))"
  using fl_eqI [of "- 44" "- (9837663026028110643 / 36028797018963968)" "- 4803546399427788"] by (simp add: pow2_def)

lemma fl_tenth_kelvin: "fl (879609302221 / 8796093022208) = Finite (879609302221 / 8796093022208)"
  using fl_eqI [of "- 56" "879609302221 / 8796093022208" "7205759403794432"] by (simp add: pow2_def)

lemma fl_twentieth: "fl (1 / 20) = Finite (3602879701896397 / 72057594037927936)"
  using fl_eqI [of "- 57" "1 / 20" "7205759403792794"] by (simp add: pow2_def)

lemma fl_twentieth_mm: "fl (4153837486827862419877810830259 / 83076749736557242056487941267521536) = Finite (7378697629483821 / 147573952589676412928)"
  using fl_eqI [of "- 67" "4153837486827862419877810830259 / 83076749736557242056487941267521536" "7378697629483821"] by (simp add: pow2_def)

lemma fl_twentieth_mm_exact: "fl (7378697629483821 / 147573952589676412928) = Finite (7378697629483821 / 147573952589676412928)"
  using fl_eqI [of "- 67" "7378697629483821 / 147573952589676412928" "7378697629483821"] by (simp add: pow2_def)

lemmas float_defs = fadd_def fsub_def fneg_def fmul_def fdiv_val_def fdiv_def fmt_double_def

section \<open>The calculator: routing and errors\<close>

lemma split_from_contains:
  "2 \<le> length (split_from sep k cur s) \<Longrightarrow> contains sep (drop k s)"
proof (induction s arbitrary: k cur)
  case Nil
  then show ?case by simp
next
  case (Cons c cs)
  show ?case
  proof (cases "0 < k")
    case True
    with Cons.prems have "2 \<le> length (split_from sep (k - 1) cur cs)" by simp
    from Cons.IH [OF this] True show ?thesis by (cases k) simp_all
  next
    case k0: False
    show ?thesis
    proof (cases "startswith (c # cs) sep")
      case True
      with k0 show ?thesis by simp
    next
      case False
      with k0 Cons.prems have "2 \<le> length (split_from sep 0 (c # cur) cs)" by simp
      from Cons.IH [OF this] k0 show ?thesis by simp
    qed
  qed
qed

text \<open>A text that \<open>split\<close> cuts in two holds the separator.\<close>

lemma py_split_two_contains: "py_split sep s = [a, b] \<Longrightarrow> contains sep s"
  using split_from_contains [of sep 0 "[]" s] by (simp add: py_split_def)


text \<open>
  Called as \<open>calculator_tool(expression=e)\<close>, an expression that one of the dangerous
  patterns matches is turned down before \<open>execute\<close> runs: the world is unchanged.
\<close>

lemma calculator_call_rejects:
  "pattern \<in> set dangerous_patterns \<Longrightarrow> re_search True pattern e \<Longrightarrow>
     calculator_call env [''expression'' \<mapsto> e] w =
       (Inr (ValidationFailed ''calculator''), w)"
  by (auto simp: calculator_call_def base_call_def calc_validate_input_def list_ex_iff)

text \<open>
  Claim C1 (the deny-list holds on every way to \<open>evaluate\<close>, the registry included)
  fails on the registry: the function registered for \<open>calculator\<close> calls \<open>execute\<close>
  and not \<open>validate_input\<close>. For every interpreter and world, the registered
  function hands the expression \<open>os.x\<close> to the interpreter, although the pattern
  \<open>os\.\<close> of the deny-list matches it and the call \<open>calculator_tool(expression="os.x")\<close>
  turns it down.
\<close>

theorem C1_registry_skips_validation:
  "\<exists>f. get_tool T ''calculator'' = Some f \<and>
       log (snd (f ''os.x'' w)) = log w @ [Eval ''os.x''] \<and>
       Seq (Word ''os'') (Lit (CHR ''.'')) \<in> set dangerous_patterns \<and>
       re_search True (Seq (Word ''os'') (Lit (CHR ''.''))) ''os.x'' \<and>
       calculator_call (calc_of T) [''expression'' \<mapsto> ''os.x''] w =
         (Inr (ValidationFailed ''calculator''), w)"
proof -
  have p: "preprocess_expression ''os.x'' = ''os.x''" by code_simp
  have h2: "\<not> contains ''to'' (py_lower ''os.x'')" by code_simp
  have h3: "\<not> is_stat_call ''os.x''" by code_simp
  have m: "Seq (Word ''os'') (Lit (CHR ''.'')) \<in> set dangerous_patterns"
    by (simp add: dangerous_patterns_def)
  have s: "re_search True (Seq (Word ''os'') (Lit (CHR ''.''))) ''os.x''" by code_simp
  have l: "log (snd (returning Calc (calc_execute (calc_of T) ''os.x'' w))) = log w @ [Eval ''os.x'']"
    by (simp add: calc_execute_def p h2 h3 evaluate_math_def returning_def Let_def
        split: sum.splits raised.splits pyexc.splits)
  have g: "get_tool T ''calculator'' = Some (\<lambda>x w. returning Calc (calc_execute (calc_of T) x w))"
    by (simp add: get_tool_def register_tools_def)
  from g l m s calculator_call_rejects [OF m s] show ?thesis by simp
qed




text \<open>
  Claim C10, as amended: an expression whose preprocessed text holds \<open>to\<close>, in any
  case of the letters, goes to the unit conversion and to nothing else: the reply is
  that of \<open>_convert_units\<close> and the world, with its log of interpreter and statistics
  calls, is unchanged.
\<close>

theorem C10_to_routes_to_conversion:
  "contains ''to'' (py_lower (preprocess_expression e)) \<Longrightarrow>
     calc_execute env e w = (Inr (convert_units (preprocess_expression e)), w)"
  by (simp add: calc_execute_def Let_def)

text \<open>The identifier \<open>factorial\<close> holds \<open>to\<close>.\<close>

theorem C10_to_routes_to_conversion_witness:
  "contains ''to'' (py_lower (preprocess_expression ''math.factorial(5)'')) \<and>
   calc_execute sample_calc_env ''math.factorial(5)'' empty_world = (Inr ConvParseError, empty_world)"
proof -
  have p: "preprocess_expression ''math.factorial(5)'' = ''math.factorial(5)''" by code_simp
  have h: "contains ''to'' (py_lower (preprocess_expression ''math.factorial(5)''))" by code_simp
  have c: "convert_units ''math.factorial(5)'' = ConvParseError"
    by (simp add: convert_units_def py_split_def py_lower_def py_lower_char_def upper_chars_def
        lower_chars_def py_strip_def is_space_def match_value_unit_def is_num_char_def
        is_digit_def)
  from C10_to_routes_to_conversion [OF h, of sample_calc_env empty_world] h p c
  show ?thesis by simp
qed

text \<open>
  The identifier \<open>atan\<close> of claim C10 does not hold \<open>to\<close>: the expression \<open>atan(1)\<close> is
  not taken for a conversion, its preprocessed text goes to the interpreter.
\<close>

theorem C10_atan_counterexample:
  "\<not> contains ''to'' (py_lower (preprocess_expression ''atan(1)'')) \<and>
   calc_execute sample_calc_env ''atan(1)'' empty_world =
     (Inr (CalcError (OtherException ''name amath is not defined'')),
      \<lparr>files = [], log = [Eval ''amath.tan(1)'']\<rparr>)"
proof -
  have p: "preprocess_expression ''atan(1)'' = ''amath.tan(1)''" by code_simp
  have h2: "\<not> contains ''to'' (py_lower ''amath.tan(1)'')" by code_simp
  have h3: "\<not> is_stat_call ''amath.tan(1)''" by code_simp
  have e: "py_eval sample_calc_env ''amath.tan(1)'' =
     Inl (Exc (OtherException ''name amath is not defined''))" by code_simp
  from p h2 h3 e show ?thesis
    by (simp add: calc_execute_def evaluate_math_def empty_world_def)
qed

section \<open>The calculator: conversions\<close>

text \<open>No factor of the table is zero as a double.\<close>

lemma fl_table_nonzero:
  "list_all (\<lambda>(c, us). list_all (\<lambda>(u, f). case f of Num t \<Rightarrow> fl t \<noteq> Finite 0 | Name n \<Rightarrow> True) us)
     units"
  using fl_one fl_thousand fl_cm fl_mm fl_inch fl_ft fl_mile fl_mg fl_lb fl_oz
  by (simp add: units_def)

lemma fl_units_nonzero:
  assumes "(c, us) \<in> set units" and "map_of us u = Some (Num t)"
  shows "fl t \<noteq> Finite 0"
proof -
  from assms(2) have "(u, Num t) \<in> set us" by (rule map_of_SomeD)
  with assms(1) fl_table_nonzero show ?thesis by (fastforce simp: list_all_iff)
qed

text \<open>The numbers of the examples, read by \<open>float\<close>, and the operations on them.\<close>

lemma float_1: "py_float ''1'' = Inr (Finite 1)"
  using fl_one by (simp add: py_float_def is_digit_def nat_of_digits_def digit_val_def)

lemma float_10: "py_float ''10'' = Inr (Finite 10)"
  using fl_10 by (simp add: py_float_def is_digit_def nat_of_digits_def digit_val_def)

lemma float_0: "py_float ''0'' = Inr (Finite 0)"
  using fl_zero by (simp add: py_float_def is_digit_def nat_of_digits_def digit_val_def)

lemma float_300: "py_float ''300'' = Inr (Finite 300)"
  using fl_300 by (simp add: py_float_def is_digit_def nat_of_digits_def digit_val_def)

lemma float_tenth: "py_float ''0.1'' = Inr (Finite (3602879701896397 / 36028797018963968))"
  using fl_tenth by (simp add: py_float_def is_digit_def nat_of_digits_def digit_val_def)

lemma float_twentieth: "py_float ''0.05'' = Inr (Finite (3602879701896397 / 72057594037927936))"
  using fl_twentieth by (simp add: py_float_def is_digit_def nat_of_digits_def digit_val_def)

lemma quotient_twentieth_mm:
  "fdiv (fmul (Finite (3602879701896397 / 72057594037927936)) (fl 0.001)) (fl 1) =
     Inr (Finite (7378697629483821 / 147573952589676412928))"
  using fl_mm fl_one fl_twentieth_mm fl_twentieth_mm_exact by (simp add: float_defs)

lemma fmt_twentieth_mm:
  "fmt_double 4 (Finite (7378697629483821 / 147573952589676412928)) = ''0.0001''"
  by (simp add: fmt_double_def num_defs)

lemma quotient_1mm:
  "fdiv (fmul (Finite 1) (fl 0.001)) (fl 1000) =
     Inr (Finite (4722366482869645 / 4722366482869645213696))"
  using fl_mm fl_mm_exact fl_thousand fl_mm_per_thousand by (simp add: float_defs)

lemma fmt_1mm: "fmt_double 4 (Finite (4722366482869645 / 4722366482869645213696)) = ''0.0000''"
  by (simp add: fmt_double_def num_defs)

lemma quotient_10km: "fdiv (fmul (Finite 10) (fl 1000)) (fl 1) = Inr (Finite 10000)"
  using fl_one fl_thousand fl_10000 by (simp add: float_defs)

lemma fmt_10000: "fmt_double 4 (Finite 10000) = ''10000.0000''"
  by (simp add: fmt_double_def num_defs)

lemma temp_300k:
  "convert_temperature (Finite 300) ''k'' ''f'' = Inr (Finite (706590152473969 / 8796093022208))"
  using fl_27315 fl_celsius fl_times9 fl_over5 fl_plus32
  by (simp add: convert_temperature_def float_defs)

lemma temp_tenth_k:
  "convert_temperature (Finite (3602879701896397 / 36028797018963968)) ''k'' ''k'' =
     Inr (Finite (879609302221 / 8796093022208))"
  using fl_27315 fl_tenth_celsius fl_tenth_kelvin
  by (simp add: convert_temperature_def float_defs)

lemma temp_0c: "convert_temperature (Finite 0) ''c'' ''f'' = Inr (Finite 32)"
  using fl_zero fl_32 by (simp add: convert_temperature_def float_defs)

lemma find_unit_type_sound:
  "find_unit_type tab f t = Some us \<Longrightarrow>
     (\<exists>c. (c, us) \<in> set tab) \<and> map_of us f \<noteq> None \<and> map_of us t \<noteq> None"
  by (induction tab f t rule: find_unit_type.induct) (auto split: if_splits)

lemma find_unit_type_complete:
  "(c, us) \<in> set tab \<Longrightarrow> map_of us f \<noteq> None \<Longrightarrow> map_of us t \<noteq> None \<Longrightarrow>
     find_unit_type tab f t \<noteq> None"
  by (induction tab f t rule: find_unit_type.induct) auto

text \<open>No unit symbol is in two categories, and no factor is zero.\<close>

lemma units_disjoint:
  "(c1, us1) \<in> set units \<Longrightarrow> (c2, us2) \<in> set units \<Longrightarrow>
     map_of us1 u \<noteq> None \<Longrightarrow> map_of us2 u \<noteq> None \<Longrightarrow> us1 = us2"
  by (auto simp: units_def split: if_splits)

lemma temperature_category:
  "u \<in> set temperature_units \<Longrightarrow>
     \<exists>us n. (''temperature'', us) \<in> set units \<and> map_of us u = Some (Name n)"
  by (auto simp: units_def temperature_units_def)

text \<open>\<open>_convert_units\<close> once the expression is parsed.\<close>

lemma convert_units_parsed:
  assumes "py_split ''to'' (py_lower expr) = [a, b]"
    and "match_value_unit (py_strip a) = Some (num, from_unit)"
    and "py_float num = Inr v"
  shows "convert_units expr =
     (if from_unit \<in> set temperature_units \<and> py_strip b \<in> set temperature_units
      then (case convert_temperature v from_unit (py_strip b) of
              Inl e \<Rightarrow> ConvError e
            | Inr result \<Rightarrow> TempResult v (py_upper from_unit) result (py_upper (py_strip b)))
      else
        (case find_unit_type units from_unit (py_strip b) of
           None \<Rightarrow> Unsupported from_unit (py_strip b)
         | Some us \<Rightarrow>
             (case (map_of us from_unit, map_of us (py_strip b)) of
                (Some (Num a), Some (Num b')) \<Rightarrow>
                  (case fdiv (fmul v (fl a)) (fl b') of
                     Inl e \<Rightarrow> ConvError e
                   | Inr result \<Rightarrow> UnitResult v from_unit (fmt_double 4 result) (py_strip b))
              | _ \<Rightarrow> ConvError (TypeError ''unsupported operand''))))"
  using assms by (simp add: convert_units_def Let_def)

text \<open>
  Claim C7, as amended: for an expression \<open>VALUE UNIT to UNIT\<close> that is parsed and
  whose two units are in a common category that is not the temperature, the reply
  shows the double \<open>(value * factor(from)) / factor(to)\<close>, the factors and both
  operations rounded to double precision, and this double rounded to four decimals;
  when no category holds both units the reply says that the conversion is not
  supported.
\<close>

theorem C7_unit_conversion_rounded:
  assumes "py_split ''to'' (py_lower expr) = [a, b]"
    and "match_value_unit (py_strip a) = Some (num, from_unit)"
    and "py_float num = Inr v"
  shows "((category, us) \<in> set units \<and> category \<noteq> ''temperature'' \<and>
          map_of us from_unit = Some (Num f) \<and> map_of us (py_strip b) = Some (Num t) \<longrightarrow>
            convert_units expr =
              UnitResult v from_unit (fmt_double 4 (fdiv_val (fmul v (fl f)) (fl t))) (py_strip b)) \<and>
         (\<not> list_ex (\<lambda>(c, us'). map_of us' from_unit \<noteq> None \<and> map_of us' (py_strip b) \<noteq> None)
              units \<longrightarrow>
            convert_units expr = Unsupported from_unit (py_strip b))"
proof (intro conjI impI)
  assume h: "(category, us) \<in> set units \<and> category \<noteq> ''temperature'' \<and>
          map_of us from_unit = Some (Num f) \<and> map_of us (py_strip b) = Some (Num t)"
  have not_temp: "from_unit \<notin> set temperature_units"
  proof
    assume "from_unit \<in> set temperature_units"
    then obtain us' n where t: "(''temperature'', us') \<in> set units"
      and n: "map_of us' from_unit = Some (Name n)"
      using temperature_category by blast
    from units_disjoint [OF t _ _ _, of category us from_unit] h n have "us' = us" by auto
    with n h show False by simp
  qed
  from find_unit_type_complete [of category us units from_unit "py_strip b"] h
  obtain us' where f: "find_unit_type units from_unit (py_strip b) = Some us'" by auto
  from find_unit_type_sound [OF f] obtain c' where c': "(c', us') \<in> set units"
    and p: "map_of us' from_unit \<noteq> None" by blast
  from units_disjoint [OF c' _ p, of category us] h have eq: "us' = us" by auto
  from fl_units_nonzero [of category us "py_strip b" t] h have "fl t \<noteq> Finite 0" by simp
  with convert_units_parsed [OF assms] not_temp f eq h
  show "convert_units expr =
          UnitResult v from_unit (fmt_double 4 (fdiv_val (fmul v (fl f)) (fl t))) (py_strip b)"
    by (simp add: fdiv_def)
next
  assume "\<not> list_ex (\<lambda>(c, us'). map_of us' from_unit \<noteq> None \<and> map_of us' (py_strip b) \<noteq> None) units"
  then have h: "\<forall>(c, us') \<in> set units. map_of us' from_unit = None \<or> map_of us' (py_strip b) = None"
    by (auto simp: list_ex_iff)
  have not_temp: "\<not> (from_unit \<in> set temperature_units \<and> py_strip b \<in> set temperature_units)"
    using h by (auto simp: units_def temperature_units_def)
  have "find_unit_type units from_unit (py_strip b) = None"
  proof (cases "find_unit_type units from_unit (py_strip b)")
    case None
    then show ?thesis .
  next
    case (Some us')
    from find_unit_type_sound [OF Some] h show ?thesis by auto
  qed
  with convert_units_parsed [OF assms] not_temp
  show "convert_units expr = Unsupported from_unit (py_strip b)" by simp
qed

text \<open>The expressions \<open>10km to m\<close> and \<open>10km to kg\<close>.\<close>

theorem C7_unit_conversion_rounded_witness:
  "py_split ''to'' (py_lower ''10km to m'') = [''10km '', '' m''] \<and>
   match_value_unit (py_strip ''10km '') = Some (''10'', ''km'') \<and>
   py_float ''10'' = Inr (Finite 10) \<and>
   (''length'', [(''m'', Num 1), (''km'', Num 1000), (''cm'', Num 0.01), (''mm'', Num 0.001),
                 (''inch'', Num 0.0254), (''ft'', Num 0.3048), (''mile'', Num 1609.344)])
     \<in> set units \<and>
   fdiv_val (fmul (Finite 10) (fl 1000)) (fl 1) = Finite 10000 \<and>
   convert_units ''10km to m'' = UnitResult (Finite 10) ''km'' ''10000.0000'' ''m'' \<and>
   py_split ''to'' (py_lower ''10km to kg'') = [''10km '', '' kg''] \<and>
   \<not> list_ex (\<lambda>(c, us'). map_of us' ''km'' \<noteq> None \<and> map_of us' ''kg'' \<noteq> None) units \<and>
   convert_units ''10km to kg'' = Unsupported ''km'' ''kg''"
proof -
  let ?len = "[(''m'', Num 1), (''km'', Num 1000), (''cm'', Num 0.01), (''mm'', Num 0.001),
               (''inch'', Num 0.0254), (''ft'', Num 0.3048), (''mile'', Num 1609.344)]"
  have s1: "py_split ''to'' (py_lower ''10km to m'') = [''10km '', '' m'']" by code_simp
  have s2: "py_split ''to'' (py_lower ''10km to kg'') = [''10km '', '' kg'']" by code_simp
  have m: "match_value_unit (py_strip ''10km '') = Some (''10'', ''km'')" by code_simp
  have st1: "py_strip '' m'' = ''m''" by code_simp
  have st2: "py_strip '' kg'' = ''kg''" by code_simp
  have u: "(''length'', ?len) \<in> set units" by (simp add: units_def)
  have none: "\<not> list_ex (\<lambda>(c, us'). map_of us' ''km'' \<noteq> None \<and> map_of us' ''kg'' \<noteq> None) units"
    by (simp add: units_def)
  have q: "fdiv_val (fmul (Finite 10) (fl 1000)) (fl 1) = Finite 10000"
    using quotient_10km fl_one by (simp add: fdiv_def)
  from C7_unit_conversion_rounded [OF s1 m float_10, of "''length''" ?len 1000 1]
       C7_unit_conversion_rounded [OF s2 m float_10, of "''length''" ?len 1000 1]
       s1 s2 m float_10 st1 st2 u none q fmt_10000
  show ?thesis by simp
qed

lemma conv_1mm: "convert_units ''1mm to km'' = UnitResult (Finite 1) ''mm'' ''0.0000'' ''km''"
proof -
  have s: "py_split ''to'' (py_lower ''1mm to km'') = [''1mm '', '' km'']" by code_simp
  have m: "match_value_unit (py_strip ''1mm '') = Some (''1'', ''mm'')" by code_simp
  have st: "py_strip '' km'' = ''km''" by code_simp
  from convert_units_parsed [OF s m float_1] st quotient_1mm fmt_1mm
  show ?thesis by (simp add: temperature_units_def units_def)
qed

text \<open>
  Claim C7 as stated fails: one millimetre is a millionth of a kilometre, the double
  quotient is not zero, and the reply shows \<open>0.0000\<close>; 0.05 millimetres are 0.00005
  metres, and the reply shows \<open>0.0001\<close>, the double product being above 0.00005.
\<close>

lemma conv_twentieth_mm:
  "convert_units ''0.05mm to m'' =
     UnitResult (Finite (3602879701896397 / 72057594037927936)) ''mm'' ''0.0001'' ''m''"
proof -
  have s: "py_split ''to'' (py_lower ''0.05mm to m'') = [''0.05mm '', '' m'']" by code_simp
  have m: "match_value_unit (py_strip ''0.05mm '') = Some (''0.05'', ''mm'')" by code_simp
  have st: "py_strip '' m'' = ''m''" by code_simp
  from convert_units_parsed [OF s m float_twentieth] st quotient_twentieth_mm fmt_twentieth_mm
  show ?thesis by (simp add: temperature_units_def units_def)
qed

theorem C7_rounding_counterexample:
  "calc_execute sample_calc_env ''1mm to km'' empty_world =
     (Inr (UnitResult (Finite 1) ''mm'' ''0.0000'' ''km''), empty_world) \<and>
   convert_units ''0.05mm to m'' =
     UnitResult (Finite (3602879701896397 / 72057594037927936)) ''mm'' ''0.0001'' ''m'' \<and>
   (0.05 :: rat) * 0.001 / 1 = 1 / 20000 \<and>
   find_unit_type units ''mm'' ''km'' =
     Some [(''m'', Num 1), (''km'', Num 1000), (''cm'', Num 0.01), (''mm'', Num 0.001),
           (''inch'', Num 0.0254), (''ft'', Num 0.3048), (''mile'', Num 1609.344)] \<and>
   (1 :: rat) * 0.001 / 1000 = 1 / 1000000 \<and>
   fdiv (fmul (Finite 1) (fl 0.001)) (fl 1000) =
     Inr (Finite (4722366482869645 / 4722366482869645213696))"
proof -
  have p: "preprocess_expression ''1mm to km'' = ''1mm to km''" by code_simp
  have c: "contains ''to'' (py_lower ''1mm to km'')" by code_simp
  have f: "find_unit_type units ''mm'' ''km'' =
     Some [(''m'', Num 1), (''km'', Num 1000), (''cm'', Num 0.01), (''mm'', Num 0.001),
           (''inch'', Num 0.0254), (''ft'', Num 0.3048), (''mile'', Num 1609.344)]"
    by (simp add: units_def)
  from p c f conv_1mm conv_twentieth_mm quotient_1mm show ?thesis
    by (simp add: calc_execute_def)
qed

text \<open>
  Claim C8, as amended: a conversion between Celsius, Fahrenheit and Kelvin goes
  through Celsius by the formulas \<open>(f - 32) * 5 / 9\<close>, \<open>k - 273.15\<close>,
  \<open>c * 9 / 5 + 32\<close> and \<open>c + 273.15\<close>, evaluated from left to right on doubles, each
  operation and the constant \<open>273.15\<close> rounded to double precision; the reply of
  \<open>_convert_units\<close> carries that double and both unit letters in upper case.
\<close>

theorem C8_temperature_pivot:
  assumes "from_unit \<in> set [''c'', ''f'', ''k'']" and "to_unit \<in> set [''c'', ''f'', ''k'']"
  shows "convert_temperature v from_unit to_unit = Inr (spec_temperature from_unit to_unit v) \<and>
         (py_split ''to'' (py_lower expr) = [a, b] \<and>
          match_value_unit (py_strip a) = Some (num, from_unit) \<and>
          py_float num = Inr v \<and> py_strip b = to_unit \<longrightarrow>
            convert_units expr =
              TempResult v (py_upper from_unit) (spec_temperature from_unit to_unit v)
                (py_upper to_unit))"
proof -
  have t: "convert_temperature v from_unit to_unit = Inr (spec_temperature from_unit to_unit v)"
    using assms
    by (auto simp: convert_temperature_def spec_temperature_def spec_to_celsius_def
        spec_from_celsius_def fl_celsius_to_fahrenheit_def fl_fahrenheit_to_celsius_def
        fl_celsius_to_kelvin_def fl_kelvin_to_celsius_def)
  have m: "from_unit \<in> set temperature_units \<and> to_unit \<in> set temperature_units"
    using assms by (simp add: temperature_units_def)
  show ?thesis
  proof (intro conjI impI)
    show "convert_temperature v from_unit to_unit = Inr (spec_temperature from_unit to_unit v)"
      by (rule t)
  next
    assume h: "py_split ''to'' (py_lower expr) = [a, b] \<and>
          match_value_unit (py_strip a) = Some (num, from_unit) \<and>
          py_float num = Inr v \<and> py_strip b = to_unit"
    from h have h1: "py_split ''to'' (py_lower expr) = [a, b]"
      and h2: "match_value_unit (py_strip a) = Some (num, from_unit)"
      and h3: "py_float num = Inr v" and h4: "py_strip b = to_unit" by simp_all
    from convert_units_parsed [OF h1 h2 h3] h4 m t
    show "convert_units expr =
              TempResult v (py_upper from_unit) (spec_temperature from_unit to_unit v)
                (py_upper to_unit)" by simp
  qed
qed

text \<open>The expression \<open>0C to F\<close>.\<close>

theorem C8_temperature_pivot_witness:
  "''c'' \<in> set [''c'', ''f'', ''k''] \<and> ''f'' \<in> set [''c'', ''f'', ''k''] \<and>
   py_split ''to'' (py_lower ''0C to F'') = [''0c '', '' f''] \<and>
   match_value_unit (py_strip ''0c '') = Some (''0'', ''c'') \<and>
   py_float ''0'' = Inr (Finite 0) \<and> py_strip '' f'' = ''f'' \<and>
   convert_temperature (Finite 0) ''c'' ''f'' = Inr (Finite 32) \<and>
   convert_units ''0C to F'' = TempResult (Finite 0) ''C'' (Finite 32) ''F'' \<and>
   calc_execute sample_calc_env ''0C to F'' empty_world =
     (Inr (TempResult (Finite 0) ''C'' (Finite 32) ''F''), empty_world)"
proof -
  have a1: "''c'' \<in> set [''c'', ''f'', ''k'']" by simp
  have a2: "''f'' \<in> set [''c'', ''f'', ''k'']" by simp
  have s: "py_split ''to'' (py_lower ''0C to F'') = [''0c '', '' f'']" by code_simp
  have m: "match_value_unit (py_strip ''0c '') = Some (''0'', ''c'')" by code_simp
  have st: "py_strip '' f'' = ''f''" by code_simp
  have up: "py_upper ''c'' = ''C''" "py_upper ''f'' = ''F''" by code_simp+
  have p: "preprocess_expression ''0C to F'' = ''0C to F''" by code_simp
  have c: "contains ''to'' (py_lower ''0C to F'')" by code_simp
  from C8_temperature_pivot [OF a1 a2, of "Finite 0" "''0C to F''" "''0c ''" "'' f''" "''0''"]
       s m float_0 st up temp_0c
  have r: "convert_units ''0C to F'' = TempResult (Finite 0) ''C'' (Finite 32) ''F''" by simp
  with s m float_0 st p c temp_0c show ?thesis by (simp add: calc_execute_def)
qed

text \<open>
  Claim C8 as stated fails: by the formulas 300 K are 80.33 degrees Fahrenheit; the
  reply carries another double, which is neither 80.33 nor the double nearest to it
  (it prints as \<open>80.33000000000004\<close>), since \<open>273.15\<close> is no double. And 0.1 K
  converted to Kelvin, which the formulas leave as it is, comes back as another
  double (it prints as \<open>0.10000000000002274\<close>).
\<close>

theorem C8_rounding_counterexample:
  "calc_execute sample_calc_env ''300K to F'' empty_world =
     (Inr (TempResult (Finite 300) ''K'' (Finite (706590152473969 / 8796093022208)) ''F''),
      empty_world) \<and>
   exact_temperature ''k'' ''f'' 300 = 8033 / 100 \<and>
   (706590152473969 / 8796093022208 :: rat) \<noteq> 8033 / 100 \<and>
   fl (8033 / 100) = Finite (5652721219791749 / 70368744177664) \<and>
   (706590152473969 / 8796093022208 :: rat) \<noteq> 5652721219791749 / 70368744177664 \<and>
   calc_execute sample_calc_env ''0.1K to K'' empty_world =
     (Inr (TempResult (Finite (3602879701896397 / 36028797018963968)) ''K''
             (Finite (879609302221 / 8796093022208)) ''K''), empty_world) \<and>
   exact_temperature ''k'' ''k'' (3602879701896397 / 36028797018963968) =
     3602879701896397 / 36028797018963968 \<and>
   (879609302221 / 8796093022208 :: rat) \<noteq> 3602879701896397 / 36028797018963968"
proof -
  have s1: "py_split ''to'' (py_lower ''0.1K to K'') = [''0.1k '', '' k'']" by code_simp
  have m1: "match_value_unit (py_strip ''0.1k '') = Some (''0.1'', ''k'')" by code_simp
  have st1: "py_strip '' k'' = ''k''" by code_simp
  have p1: "preprocess_expression ''0.1K to K'' = ''0.1K to K''" by code_simp
  have c1: "contains ''to'' (py_lower ''0.1K to K'')" by code_simp
  have e1: "exact_temperature ''k'' ''k'' (3602879701896397 / 36028797018963968) =
     3602879701896397 / 36028797018963968"
    by (simp add: exact_temperature_def kelvin_to_celsius_def celsius_to_kelvin_def)
  have s: "py_split ''to'' (py_lower ''300K to F'') = [''300k '', '' f'']" by code_simp
  have m: "match_value_unit (py_strip ''300k '') = Some (''300'', ''k'')" by code_simp
  have st: "py_strip '' f'' = ''f''" by code_simp
  have up: "py_upper ''k'' = ''K''" "py_upper ''f'' = ''F''" by code_simp+
  have p: "preprocess_expression ''300K to F'' = ''300K to F''" by code_simp
  have c: "contains ''to'' (py_lower ''300K to F'')" by code_simp
  from convert_units_parsed [OF s m float_300] st up temp_300k
  have r: "convert_units ''300K to F'' =
     TempResult (Finite 300) ''K'' (Finite (706590152473969 / 8796093022208)) ''F''"
    by (simp add: temperature_units_def)
  have e: "exact_temperature ''k'' ''f'' 300 = 8033 / 100"
    by (simp add: exact_temperature_def kelvin_to_celsius_def celsius_to_fahrenheit_def)
  from convert_units_parsed [OF s1 m1 float_tenth] st1 up temp_tenth_k
  have r1: "convert_units ''0.1K to K'' =
     TempResult (Finite (3602879701896397 / 36028797018963968)) ''K''
       (Finite (879609302221 / 8796093022208)) ''K''"
    by (simp add: temperature_units_def)
  from r e p c fl_8033 r1 e1 p1 c1 show ?thesis by (simp add: calc_execute_def)
qed

section \<open>The file tool: confinement and the deny-list\<close>

text \<open>
  Whatever \<open>_get_safe_path\<close> returns is the sandbox root or lies below it, on every
  operation, since every operation takes its path from there.
\<close>

lemma get_safe_path_contained:
  "get_safe_path ft p = Inr q \<Longrightarrow> relative_to q (base_path ft)"
  by (auto simp: get_safe_path_def relative_to_def startswith_refl Let_def split: if_splits)

text \<open>The path \<open>a/../b/./c.txt\<close> in the sandbox \<open>/home/u/work\<close>.\<close>

lemma get_safe_path_contained_witness:
  "get_safe_path sample_file_tool ''a/../b/./c.txt'' = Inr [''home'', ''u'', ''work'', ''b'', ''c.txt''] \<and>
   relative_to [''home'', ''u'', ''work'', ''b'', ''c.txt''] (base_path sample_file_tool)"
proof -
  have g: "get_safe_path sample_file_tool ''a/../b/./c.txt'' =
     Inr [''home'', ''u'', ''work'', ''b'', ''c.txt'']" by code_simp
  from get_safe_path_contained [OF g] g show ?thesis by simp
qed

text \<open>The path \<open>../../etc/passwd\<close> leaves the sandbox \<open>/home/u/work\<close>.\<close>

lemma etc_passwd_escapes:
  "get_safe_path sample_file_tool ''../../etc/passwd'' = Inl (PermissionError ''../../etc/passwd'')"
  by code_simp

text \<open>
  Called as \<open>file_tool(operation=..., path=p)\<close>, every path that is not empty is
  turned down by \<open>validate_input\<close>: the root directory is in the deny-list.
\<close>

lemma file_call_rejects_all_paths:
  "p \<noteq> [] \<Longrightarrow> file_call ft env [''operation'' \<mapsto> operation, ''path'' \<mapsto> p] w =
     (Inr (ValidationFailed ''file_tool''), w)"
  by (auto simp: file_call_def base_call_def file_validate_input_def is_path_safe_def
      restricted_paths_def relative_to_def split: sum.splits)

text \<open>
  Claim C2 (a path under the deny-list is turned down on every file operation, even
  inside the sandbox) fails on \<open>execute\<close>: the deny-list is read by
  \<open>validate_input\<close> only, which \<open>execute\<close> and the registry do not call. With the
  sandbox at the home directory, the file \<open>Desktop/secret.txt\<close> resolves to a path
  under the listed directory \<open>Desktop\<close>, \<open>_is_path_safe\<close> refuses that path, and
  the operation \<open>read\<close> returns the content of the file.
\<close>

theorem C2_restricted_path_is_read:
  "get_safe_path home_file_tool ''Desktop/secret.txt'' =
     Inr [''home'', ''u'', ''Desktop'', ''secret.txt''] \<and>
   relative_to [''home'', ''u'', ''Desktop'', ''secret.txt''] (home home_file_tool @ [''Desktop'']) \<and>
   home home_file_tool @ [''Desktop''] \<in> set (restricted_paths home_file_tool) \<and>
   \<not> is_path_safe home_file_tool [''home'', ''u'', ''Desktop'', ''secret.txt''] \<and>
   file_execute home_file_tool sample_file_env ''read'' ''Desktop/secret.txt'' [] ''*'' desktop_world =
     (Inr (FileContent ''key'' False), desktop_world)"
proof -
  have g: "get_safe_path home_file_tool ''Desktop/secret.txt'' =
     Inr [''home'', ''u'', ''Desktop'', ''secret.txt'']" by code_simp
  have r: "relative_to [''home'', ''u'', ''Desktop'', ''secret.txt''] (home home_file_tool @ [''Desktop''])"
    by code_simp
  have m: "home home_file_tool @ [''Desktop''] \<in> set (restricted_paths home_file_tool)"
    by (simp add: restricted_paths_def)
  have s: "\<not> is_path_safe home_file_tool [''home'', ''u'', ''Desktop'', ''secret.txt'']"
    by code_simp
  have o: "py_strip (py_lower ''read'') = ''read''" by code_simp
  have e: "py_lower (suffix [''home'', ''u'', ''Desktop'', ''secret.txt'']) = ''.txt''" by code_simp
  have u: "universal_newlines ''key'' = ''key''" by code_simp
  have z: "utf8_size ''key'' = 3" by (simp add: utf8_size_def)
  have x: "read_file home_file_tool sample_file_env ''Desktop/secret.txt'' desktop_world =
     FileContent ''key'' False"
    by (simp add: read_file_def g desktop_world_def e u z)
  from g r m s x o show ?thesis by (simp add: file_execute_def)
qed

section \<open>The file tool: listing\<close>

text \<open>
  Claim C9 (a note follows whenever a category shows fewer entries than it has)
  fails: of eleven directories ten are shown, and since the note depends on the total
  being over 20, none follows.
\<close>

theorem C9_eleven_directories_no_note:
  "list_directory sample_file_tool [] eleven_dirs_world =
     Listing ''.'' [''d01/'', ''d02/'', ''d03/'', ''d04/'', ''d05/'', ''d06/'', ''d07/'', ''d08/'',
                    ''d09/'', ''d10/''] [] None \<and>
   length (iterdir (files eleven_dirs_world) [''home'', ''u'', ''work'']) = 11"
proof -
  have g: "get_safe_path sample_file_tool ''.'' = Inr [''home'', ''u'', ''work'']" by code_simp
  have i: "iterdir (files eleven_dirs_world) [''home'', ''u'', ''work''] =
     map (\<lambda>name. ([''home'', ''u'', ''work'', name], Dir))
       [''d01'', ''d02'', ''d03'', ''d04'', ''d05'', ''d06'', ''d07'', ''d08'', ''d09'', ''d10'', ''d11'']"
    by (simp add: iterdir_def eleven_dirs_world_def)
  have f: "map_of (files eleven_dirs_world) [''home'', ''u'', ''work''] = Some Dir"
    by (simp add: eleven_dirs_world_def)
  show ?thesis by (simp add: list_directory_def g f i)
qed

section \<open>The file tool: writing, then reading\<close>

lemma universal_newlines_id: "CHR 0x0D \<notin> set s \<Longrightarrow> universal_newlines s = s"
  by (induction s rule: universal_newlines.induct) auto

lemma utf8_size_le: "utf8_size s \<le> 2 * length s"
  by (induction s) (auto simp: utf8_size_def)

lemma utf8_size_replicate: "\<not> digit7 c \<Longrightarrow> utf8_size (replicate n c) = n"
  by (induction n) (auto simp: utf8_size_def)

text \<open>
  A text written to a path that is no structured format and read again: the first
  5000 characters, the line ends translated, and the truncation note when there
  are 5000 of them.
\<close>

lemma write_then_read:
  assumes "get_safe_path ft p = Inr q"
    and "map_of (files w) (butlast q) = Some Dir"
    and "map_of (files w) q \<noteq> Some Dir"
    and "py_lower (suffix q) \<notin> set [''.json'', ''.csv'', ''.xlsx'', ''.xls'']"
    and "utf8_size content \<le> 10 * 1024 * 1024"
  shows "fst (write_file ft p content w) = WriteOk p \<and>
         read_file ft env p (snd (write_file ft p content w)) =
           FileContent (take 5000 (universal_newlines content))
             (length (take 5000 (universal_newlines content)) = 5000)"
  using assms
  by (simp add: write_file_def read_file_def Let_def update_conv')

text \<open>
  Claim C6, as amended: for a path that resolves inside the sandbox, whose parent
  directory exists, that is no directory itself and has none of the extensions
  \<open>.json\<close>, \<open>.csv\<close>, \<open>.xlsx\<close>, \<open>.xls\<close>, and for a content of fewer than 5000
  characters with no carriage return, the write succeeds and the read that follows
  returns the content as it was written, after the fixed heading, with no truncation
  note.
\<close>

theorem C6_short_text_round_trip:
  assumes "get_safe_path ft p = Inr q"
    and "map_of (files w) (butlast q) = Some Dir"
    and "map_of (files w) q \<noteq> Some Dir"
    and "py_lower (suffix q) \<notin> set [''.json'', ''.csv'', ''.xlsx'', ''.xls'']"
    and "length content < 5000"
    and "CHR 0x0D \<notin> set content"
  shows "fst (write_file ft p content w) = WriteOk p \<and>
         read_file ft env p (snd (write_file ft p content w)) = FileContent content False"
proof -
  from utf8_size_le [of content] assms(5) have "utf8_size content \<le> 10 * 1024 * 1024" by simp
  from write_then_read [OF assms(1-4) this, of env] universal_newlines_id [OF assms(6)] assms(5)
  show ?thesis by simp
qed

text \<open>The text \<open>hello\<close> written to \<open>a.txt\<close>.\<close>

theorem C6_short_text_round_trip_witness:
  "get_safe_path sample_file_tool ''a.txt'' = Inr [''home'', ''u'', ''work'', ''a.txt''] \<and>
   map_of (files work_world) (butlast [''home'', ''u'', ''work'', ''a.txt'']) = Some Dir \<and>
   map_of (files work_world) [''home'', ''u'', ''work'', ''a.txt''] \<noteq> Some Dir \<and>
   py_lower (suffix [''home'', ''u'', ''work'', ''a.txt'']) \<notin> set [''.json'', ''.csv'', ''.xlsx'', ''.xls''] \<and>
   length ''hello'' < 5000 \<and> CHR 0x0D \<notin> set ''hello'' \<and>
   fst (write_file sample_file_tool ''a.txt'' ''hello'' work_world) = WriteOk ''a.txt'' \<and>
   read_file sample_file_tool sample_file_env ''a.txt''
     (snd (write_file sample_file_tool ''a.txt'' ''hello'' work_world)) = FileContent ''hello'' False"
proof -
  have g: "get_safe_path sample_file_tool ''a.txt'' = Inr [''home'', ''u'', ''work'', ''a.txt'']"
    by code_simp
  have d: "map_of (files work_world) (butlast [''home'', ''u'', ''work'', ''a.txt'']) = Some Dir"
    by (simp add: work_world_def)
  have n: "map_of (files work_world) [''home'', ''u'', ''work'', ''a.txt''] \<noteq> Some Dir"
    by (simp add: work_world_def)
  have e: "py_lower (suffix [''home'', ''u'', ''work'', ''a.txt'']) \<notin> set [''.json'', ''.csv'', ''.xlsx'', ''.xls'']"
    by code_simp
  have l: "length ''hello'' < 5000" by simp
  have c: "CHR 0x0D \<notin> set ''hello''" by simp
  from C6_short_text_round_trip [OF g d n e l c, of sample_file_env] g d n e l c
  show ?thesis by simp
qed

text \<open>
  Claim C6 as stated fails: a text of 5001 bytes, far below the size cap of the
  read, comes back without its last character, the truncation note in its place.
\<close>

theorem C6_truncation_counterexample:
  "utf8_size (replicate 5001 (CHR ''a'')) = 5001 \<and>
   fst (write_file sample_file_tool ''a.txt'' (replicate 5001 (CHR ''a'')) work_world) = WriteOk ''a.txt'' \<and>
   read_file sample_file_tool sample_file_env ''a.txt''
     (snd (write_file sample_file_tool ''a.txt'' (replicate 5001 (CHR ''a'')) work_world)) =
       FileContent (replicate 5000 (CHR ''a'')) True"
proof -
  have g: "get_safe_path sample_file_tool ''a.txt'' = Inr [''home'', ''u'', ''work'', ''a.txt'']"
    by code_simp
  have d: "map_of (files work_world) (butlast [''home'', ''u'', ''work'', ''a.txt'']) = Some Dir"
    by (simp add: work_world_def)
  have n: "map_of (files work_world) [''home'', ''u'', ''work'', ''a.txt''] \<noteq> Some Dir"
    by (simp add: work_world_def)
  have e: "py_lower (suffix [''home'', ''u'', ''work'', ''a.txt'']) \<notin> set [''.json'', ''.csv'', ''.xlsx'', ''.xls'']"
    by code_simp
  have z: "utf8_size (replicate 5001 (CHR ''a'')) = 5001"
    by (rule utf8_size_replicate) simp
  then have z': "utf8_size (replicate 5001 (CHR ''a'')) \<le> 10 * 1024 * 1024" by simp
  have u: "universal_newlines (replicate 5001 (CHR ''a'')) = replicate 5001 (CHR ''a'')"
    by (rule universal_newlines_id) simp
  from write_then_read [OF g d n e z', of sample_file_env] u z
  show ?thesis by simp
qed

section \<open>The web tool and the registry\<close>

text \<open>
  Called as \<open>web_tool(operation=..., url=u)\<close>, a URL that holds one of the dangerous
  domains is turned down before any request is made: the world is unchanged.
\<close>

lemma web_call_blocks:
  "domain \<in> set dangerous_domains \<Longrightarrow> contains domain url \<Longrightarrow>
     web_call env [''operation'' \<mapsto> operation, ''url'' \<mapsto> url] w =
       (Inr (ValidationFailed ''web_tool''), w)"
  by (auto simp: web_call_def base_call_def web_validate_input_def list_ex_iff
      dangerous_domains_def)

text \<open>
  Claim C3 (no request for a loopback host, the registry included) fails on the
  registry: the function registered for \<open>web_tool\<close> calls \<open>execute\<close> and not
  \<open>validate_input\<close>. For every network and world it makes the request for
  \<open>http://127.0.0.1/\<close>, although the URL holds a dangerous domain and the call
  \<open>web_tool(operation="fetch", url=...)\<close> turns it down.
\<close>

theorem C3_registry_fetch_skips_validation:
  "\<exists>f. get_tool T ''web_tool'' = Some f \<and>
       log (snd (f ''http://127.0.0.1/'' w)) =
         log w @ [HttpRequest ''GET'' ''http://127.0.0.1/''] \<and>
       ''127.0.0.1'' \<in> set dangerous_domains \<and>
       contains ''127.0.0.1'' ''http://127.0.0.1/'' \<and>
       web_call (web_of T) [''operation'' \<mapsto> ''fetch'', ''url'' \<mapsto> ''http://127.0.0.1/''] w =
         (Inr (ValidationFailed ''web_tool''), w)"
proof -
  have o: "py_strip (py_lower ''fetch'') = ''fetch''" by code_simp
  have m: "''127.0.0.1'' \<in> set dangerous_domains" by (simp add: dangerous_domains_def)
  have c: "contains ''127.0.0.1'' ''http://127.0.0.1/''" by code_simp
  have l: "log (snd (returning Web (web_execute (web_of T) ''fetch'' ''http://127.0.0.1/'' ''GET'' [] w))) =
         log w @ [HttpRequest ''GET'' ''http://127.0.0.1/'']"
    by (simp add: web_execute_def o fetch_webpage_def returning_def Let_def
        split: sum.splits pyexc.splits)
  have g: "get_tool T ''web_tool'' =
     Some (\<lambda>x w. returning Web (web_execute (web_of T) ''fetch'' x ''GET'' [] w))"
    by (simp add: get_tool_def register_tools_def)
  from g l m c web_call_blocks [OF m c] show ?thesis by simp
qed












end
